theory Spec2Isabelle
  imports Main
begin

section \<open>Shipment records and the shipments.json store\<close>

text \<open>
  \<^verbatim>\<open>CreateShipmentRequest\<close> (run_api.py, the pydantic model): the request body
  with its defaults already filled in by the parser.
\<close>

record CreateShipmentRequest =
  project_name :: string
  supplier_name :: string
  origin :: string
  destination :: string
  cargo_value :: "int option"
  priority :: string
  container_type :: string

text \<open>
  The shipment object: the dict literal that \<^verbatim>\<open>create_shipment\<close> builds. It
  carries every field of the request and four more. Its keys are fixed
  there and its value types by the request model, so it is a record. It is the
  workflow's payload and the value kept per id in shipments.json.
\<close>

record shipment_data = CreateShipmentRequest +
  shipment_id :: string
  current_location :: string
  status :: string
  issue_details :: "string option"

type_synonym store = "string \<rightharpoonup> shipment_data"

text \<open>
  The file shipments.json as the code can find it: absent (\<^verbatim>\<open>open\<close> raises
  FileNotFoundError), not parseable (\<^verbatim>\<open>json.load\<close> raises JSONDecodeError), or
  holding a mapping from shipment id to shipment object.
\<close>

datatype db_file = File_missing | File_invalid | File_json store

datatype py_error = FileNotFoundError | JSONDecodeError

text \<open>Python truthiness of an optional string: \<^verbatim>\<open>None\<close> and \<^verbatim>\<open>""\<close> are falsy.\<close>

definition truthy :: "string option \<Rightarrow> bool" where
  "truthy x = (case x of None \<Rightarrow> False | Some s \<Rightarrow> s \<noteq> [])"

text \<open>\<^verbatim>\<open>with open("shipments.json", "r") as f: shipments = json.load(f)\<close>\<close>

definition load_shipments :: "db_file \<Rightarrow> py_error + store" where
  "load_shipments f =
     (case f of
        File_missing \<Rightarrow> Inl FileNotFoundError
      | File_invalid \<Rightarrow> Inl JSONDecodeError
      | File_json shipments \<Rightarrow> Inr shipments)"

subsection \<open>The activities (run_worker.py)\<close>

text \<open>
  \<^verbatim>\<open>update_shipment_status(shipment_id, status, current_location=None,
  issue_details=None)\<close>: reads the file, updates the entry when the id is a key of
  the mapping, writes the mapping back and returns the id and the status. A failed read
  raises before anything is written. The result dict
  \<^verbatim>\<open>{"shipment_id": .., "status": ..}\<close> is the pair of its two values.
\<close>

definition update_shipment_status ::
  "string \<Rightarrow> string \<Rightarrow> string option \<Rightarrow> string option \<Rightarrow> db_file
     \<Rightarrow> (py_error + string \<times> string) \<times> db_file" where
  "update_shipment_status sid new_status location details f =
     (case load_shipments f of
        Inl e \<Rightarrow> (Inl e, f)
      | Inr shipments \<Rightarrow>
          (let shipments' =
             (case shipments sid of
                Some entry \<Rightarrow>
                  (let e1 = entry\<lparr>status := new_status\<rparr>;
                       e2 = (if truthy location then e1\<lparr>current_location := the location\<rparr> else e1);
                       e3 = (if details \<noteq> None then e2\<lparr>issue_details := details\<rparr> else e2)
                   in shipments(sid \<mapsto> e3))
              | None \<Rightarrow> shipments)
           in (Inr (sid, new_status), File_json shipments')))"

text \<open>
  \<^verbatim>\<open>create_shipment_record(shipment_data)\<close>: stores the object under its own id,
  replacing whatever was there, and returns it.
\<close>

definition create_shipment_record ::
  "shipment_data \<Rightarrow> db_file \<Rightarrow> (py_error + shipment_data) \<times> db_file" where
  "create_shipment_record data f =
     (case load_shipments f of
        Inl e \<Rightarrow> (Inl e, f)
      | Inr shipments \<Rightarrow> (Inr data, File_json (shipments(shipment_id data \<mapsto> data))))"

section \<open>The API endpoints (run_api.py)\<close>

datatype http_error = HTTPException nat string

text \<open>
  The shipment object of \<^verbatim>\<open>create_shipment\<close>. The id is generated there from
  the clock and a random UUID, so it is a parameter here.
\<close>

definition new_shipment :: "string \<Rightarrow> CreateShipmentRequest \<Rightarrow> shipment_data" where
  "new_shipment sid request =
     \<lparr>project_name = project_name request,
      supplier_name = supplier_name request,
      origin = origin request,
      destination = destination request,
      cargo_value = cargo_value request,
      priority = priority request,
      container_type = container_type request,
      shipment_id = sid,
      current_location = origin request,
      status = ''Pending'',
      issue_details = None\<rparr>"

text \<open>\<^verbatim>\<open>GET /api/shipments/{shipment_id}\<close>\<close>

definition get_shipment :: "db_file \<Rightarrow> string \<Rightarrow> http_error + shipment_data" where
  "get_shipment f sid =
     (case load_shipments f of
        Inl FileNotFoundError \<Rightarrow> Inl (HTTPException 500 ''Shipments database file not found'')
      | Inl JSONDecodeError \<Rightarrow> Inl (HTTPException 500 ''Invalid JSON in shipments database'')
      | Inr shipments \<Rightarrow>
          (case shipments sid of
             None \<Rightarrow> Inl (HTTPException 404 (''Shipment '' @ sid @ '' not found''))
           | Some entry \<Rightarrow> Inr entry))"

text \<open>\<^verbatim>\<open>GET /api/shipments\<close>\<close>

definition get_all_shipments :: "db_file \<Rightarrow> http_error + store" where
  "get_all_shipments f =
     (case load_shipments f of
        Inl FileNotFoundError \<Rightarrow> Inl (HTTPException 500 ''Shipments database file not found'')
      | Inl JSONDecodeError \<Rightarrow> Inl (HTTPException 500 ''Invalid JSON in shipments database'')
      | Inr shipments \<Rightarrow> Inr shipments)"

text \<open>
  The JSON object that an endpoint returning a shipment object sends: the keys of the
  dict literal in \<^verbatim>\<open>create_shipment\<close>, in its order. The activities assign to
  three of these keys and add none.
\<close>

datatype json = JNull | JStr string | JInt int

definition json_object :: "shipment_data \<Rightarrow> (string \<times> json) list" where
  "json_object d =
     [(''shipment_id'', JStr (shipment_id d)),
      (''project_name'', JStr (project_name d)),
      (''supplier_name'', JStr (supplier_name d)),
      (''origin'', JStr (origin d)),
      (''destination'', JStr (destination d)),
      (''cargo_value'', (case cargo_value d of None \<Rightarrow> JNull | Some n \<Rightarrow> JInt n)),
      (''priority'', JStr (priority d)),
      (''container_type'', JStr (container_type d)),
      (''current_location'', JStr (current_location d)),
      (''status'', JStr (status d)),
      (''issue_details'', (case issue_details d of None \<Rightarrow> JNull | Some t \<Rightarrow> JStr t))]"

text \<open>Python's \<^verbatim>\<open>sep.join(xs)\<close>.\<close>

fun join :: "string \<Rightarrow> string list \<Rightarrow> string" where
  "join sep [] = []"
| "join sep [x] = x"
| "join sep (x # y # ys) = x @ sep @ join sep (y # ys)"

definition valid_choices :: "string list" where
  "valid_choices = [''expedite'', ''wait'', ''bribe_official'', ''reroute'']"

text \<open>
  \<^verbatim>\<open>POST /api/shipments/{shipment_id}/resolve\<close>. The Temporal client is outside the
  source: \<open>signal wid choice\<close> stands for connecting, taking the handle of workflow
  \<open>wid\<close> and sending it the signal; it is \<open>None\<close> when that went through and
  \<open>Some msg\<close> when an exception \<open>e\<close> with \<^verbatim>\<open>str(e) = msg\<close> was raised. The function
  returns the response (the values of its three keys message, shipment_id, choice) or
  the HTTP error, and the list of signal calls it made.
\<close>

definition resolve_shipment_issue ::
  "(string \<Rightarrow> string \<Rightarrow> string option) \<Rightarrow> string \<Rightarrow> string
     \<Rightarrow> (http_error + string \<times> string \<times> string) \<times> (string \<times> string) list" where
  "resolve_shipment_issue signal sid choice =
     (if choice \<notin> set valid_choices then
        (Inl (HTTPException 400 (''Invalid choice. Must be one of: '' @ join '', '' valid_choices)), [])
      else
        (case signal sid choice of
           Some msg \<Rightarrow>
             (Inl (HTTPException 500 (''Failed to send signal to workflow: '' @ msg)), [(sid, choice)])
         | None \<Rightarrow>
             (Inr (''Resolution signal sent to workflow'', sid, choice), [(sid, choice)])))"

section \<open>The workflow (run_worker.py, ShipmentLifecycleWorkflow)\<close>

text \<open>
  What a run does is recorded in a trace, oldest event first: the lines it logs, the
  timers it sleeps on and the activities it executes, each activity with its
  start-to-close timeout in seconds.
\<close>

datatype level = Info | Warning

datatype activity_call =
    Create_shipment_record shipment_data
  | Update_shipment_status string string "string option" "string option"

datatype event = Log level string | Sleep nat | Execute_activity activity_call nat

text \<open>
  The state of one run: the instance's field \<^verbatim>\<open>self.resolution_choice\<close>, the file
  the activities work on, the trace, and the signals still to arrive. A workflow can
  receive signals only while it is suspended in an \<^verbatim>\<open>await\<close>; \<open>arrivals\<close> lists, for
  each suspension to come, the choices signalled during it, in order of arrival.
  One instance is followed alone: no other writer touches the file meanwhile.
\<close>

record workflow_state =
  resolution_choice :: "string option"
  shipments_file :: db_file
  trace :: "event list"
  arrivals :: "string list list"

text \<open>\<^verbatim>\<open>__init__\<close>: no choice yet.\<close>

definition start_workflow :: "string list list \<Rightarrow> db_file \<Rightarrow> workflow_state" where
  "start_workflow signals f =
     \<lparr>resolution_choice = None, shipments_file = f, trace = [], arrivals = signals\<rparr>"

text \<open>The signal handler: logs the choice and assigns it to the field.\<close>

definition handle_resolution :: "string \<Rightarrow> workflow_state \<Rightarrow> workflow_state" where
  "handle_resolution choice s =
     s\<lparr>trace := trace s @ [Log Info (''Received resolution signal with choice: '' @ choice)],
       resolution_choice := Some choice\<rparr>"

text \<open>The handler run for each signal of a batch, in order of arrival.\<close>

fun handle_all :: "string list \<Rightarrow> workflow_state \<Rightarrow> workflow_state" where
  "handle_all [] s = s"
| "handle_all (choice # batch) s = handle_all batch (handle_resolution choice s)"

text \<open>One suspension: the handler runs for each signal that arrives during it.\<close>

definition suspend :: "workflow_state \<Rightarrow> workflow_state" where
  "suspend s =
     (case arrivals s of
        [] \<Rightarrow> s
      | batch # rest \<Rightarrow> handle_all batch (s\<lparr>arrivals := rest\<rparr>))"

text \<open>
  A run stops short of returning in two ways: it waits for a signal that never arrives,
  or an activity raises. What the orchestration service does with a failed activity
  (its retry policy) is not in this source; the run is followed up to the failure.
\<close>

datatype halt = Awaiting_signal | Activity_raised py_error

type_synonym step = "workflow_state \<Rightarrow> halt \<times> workflow_state + workflow_state"

definition log :: "level \<Rightarrow> string \<Rightarrow> step" where
  "log lvl msg s = Inr (s\<lparr>trace := trace s @ [Log lvl msg]\<rparr>)"

text \<open>\<^verbatim>\<open>await asyncio.sleep(n)\<close>\<close>

definition sleep :: "nat \<Rightarrow> step" where
  "sleep n s = Inr (suspend (s\<lparr>trace := trace s @ [Sleep n]\<rparr>))"

text \<open>The first line of each activity: what it writes to the activity log.\<close>

fun activity_log :: "activity_call \<Rightarrow> string" where
  "activity_log (Create_shipment_record data) = ''Creating shipment record: '' @ shipment_id data"
| "activity_log (Update_shipment_status sid st loc det) =
     ''Updating shipment '' @ sid @ '' to status: '' @ st"

text \<open>The activity run on the file; the workflow discards what it returns.\<close>

fun run_activity :: "activity_call \<Rightarrow> db_file \<Rightarrow> (py_error + unit) \<times> db_file" where
  "run_activity (Create_shipment_record data) f =
     (case create_shipment_record data f of (r, f') \<Rightarrow> (map_sum id (\<lambda>_. ()) r, f'))"
| "run_activity (Update_shipment_status sid st loc det) f =
     (case update_shipment_status sid st loc det f of (r, f') \<Rightarrow> (map_sum id (\<lambda>_. ()) r, f'))"

text \<open>\<^verbatim>\<open>await workflow.execute_activity(.., start_to_close_timeout=timedelta(seconds=t))\<close>\<close>

definition execute_activity :: "activity_call \<Rightarrow> nat \<Rightarrow> step" where
  "execute_activity call t s =
     (let s1 = s\<lparr>trace := trace s @ [Execute_activity call t, Log Info (activity_log call)]\<rparr>
      in case run_activity call (shipments_file s1) of
           (Inl e, f') \<Rightarrow> Inl (Activity_raised e, s1\<lparr>shipments_file := f'\<rparr>)
         | (Inr _, f') \<Rightarrow> Inr (suspend (s1\<lparr>shipments_file := f'\<rparr>)))"

text \<open>
  \<^verbatim>\<open>await workflow.wait_condition(lambda: self.resolution_choice is not None)\<close>:
  returns at once when a choice is already there; otherwise the run stays suspended,
  through any number of wake-ups, until a signal has set the field. With no signal
  left to arrive it waits for ever.
\<close>

fun await_signal :: "string list list \<Rightarrow> workflow_state \<Rightarrow> halt \<times> workflow_state + workflow_state" where
  "await_signal [] s = Inl (Awaiting_signal, s)"
| "await_signal (batch # rest) s =
     (let s' = handle_all batch (s\<lparr>arrivals := rest\<rparr>)
      in if resolution_choice s' \<noteq> None then Inr s' else await_signal rest s')"

definition wait_condition :: step where
  "wait_condition s =
     (if resolution_choice s \<noteq> None then Inr s else await_signal (arrivals s) s)"

text \<open>Statements in sequence; the first one that halts ends the run.\<close>

fun run_steps :: "step list \<Rightarrow> step" where
  "run_steps [] s = Inr s"
| "run_steps (f # fs) s = (case f s of Inl h \<Rightarrow> Inl h | Inr s' \<Rightarrow> run_steps fs s')"

text \<open>How an f-string prints the field: the choice, or \<^verbatim>\<open>None\<close>.\<close>

definition py_str :: "string option \<Rightarrow> string" where
  "py_str x = (case x of None \<Rightarrow> ''None'' | Some c \<Rightarrow> c)"

text \<open>Step 5 of \<^verbatim>\<open>run\<close>: the branch on the choice (lines 123 to 191).\<close>

definition process_resolution :: "shipment_data \<Rightarrow> step" where
  "process_resolution shipment_data s =
     (let sid = shipment_id shipment_data; dest = destination shipment_data in
      if resolution_choice s = Some ''expedite'' then
        run_steps
          [log Info (sid @ '': Processing express clearance (+$5000)...''),
           sleep 2,
           execute_activity (Update_shipment_status sid ''Cleared Customs''
             (Some (''Customs cleared (Express Service) - '' @ dest)) None) 10] s
      else if resolution_choice s = Some ''bribe_official'' then
        run_steps
          [log Info (sid @ '': Processing facilitation payment (+$2500)...''),
           sleep 3,
           execute_activity (Update_shipment_status sid ''Cleared Customs''
             (Some (''Customs cleared (Expedited Processing) - '' @ dest)) None) 10] s
      else if resolution_choice s = Some ''reroute'' then
        run_steps
          [log Info (sid @ '': Rerouting shipment through alternative port (+$3200)...''),
           sleep 4,
           execute_activity (Update_shipment_status sid ''Cleared Customs''
             (Some (''Rerouted and cleared (Alternative Port) - '' @ dest)) None) 10] s
      else if resolution_choice s = Some ''wait'' then
        run_steps
          [log Info (sid @ '': Waiting for standard processing (no additional cost)...''),
           sleep 6,
           execute_activity (Update_shipment_status sid ''Cleared Customs''
             (Some (''Customs cleared (Standard Processing) - '' @ dest)) None) 10] s
      else
        run_steps
          [log Warning (sid @ '': Unknown choice, defaulting to standard processing''),
           sleep 6,
           execute_activity (Update_shipment_status sid ''Cleared Customs''
             (Some (''Customs cleared - '' @ dest)) None) 10] s)"

text \<open>The dict that \<^verbatim>\<open>run\<close> returns: shipment_id, status, resolution.\<close>

record workflow_result =
  result_shipment_id :: string
  result_status :: string
  resolution :: "string option"

text \<open>\<^verbatim>\<open>ShipmentLifecycleWorkflow.run\<close>, steps 1 to 4 up to the pause.\<close>

definition until_issue_detected :: "shipment_data \<Rightarrow> step list" where
  "until_issue_detected shipment_data =
     (let sid = shipment_id shipment_data; dest = destination shipment_data in
      [log Info (''Starting shipment lifecycle for '' @ sid),
       execute_activity (Create_shipment_record shipment_data) 10,
       log Info (sid @ '': Simulating travel time...''),
       sleep 3,
       execute_activity (Update_shipment_status sid ''In Transit''
         (Some (''En route to '' @ dest)) None) 10,
       log Info (sid @ '': Continuing journey...''),
       sleep 3,
       execute_activity (Update_shipment_status sid ''At Customs''
         (Some (''Customs checkpoint - '' @ dest)) None) 10,
       log Info (sid @ '': Issue detected at customs!''),
       sleep 2,
       execute_activity (Update_shipment_status sid ''Issue Detected''
         (Some (''Customs checkpoint - '' @ dest))
         (Some ''Documentation discrepancy found - requires manual review'')) 10])"

text \<open>The pause, step 5 and step 6.\<close>

definition from_pause :: "shipment_data \<Rightarrow> step list" where
  "from_pause shipment_data =
     (let sid = shipment_id shipment_data; dest = destination shipment_data in
      [log Info (sid @ '': Waiting for resolution signal...''),
       wait_condition,
       (\<lambda>s. log Info (sid @ '': Received resolution choice: '' @ py_str (resolution_choice s)) s),
       process_resolution shipment_data,
       log Info (sid @ '': Out for delivery...''),
       sleep 3,
       execute_activity (Update_shipment_status sid ''Delivered''
         (Some (''Delivered to '' @ dest)) None) 10,
       log Info (sid @ '': Shipment lifecycle complete!'')])"

definition run ::
  "shipment_data \<Rightarrow> workflow_state
     \<Rightarrow> halt \<times> workflow_state + workflow_result \<times> workflow_state" where
  "run shipment_data s0 =
     (case run_steps (until_issue_detected shipment_data @ from_pause shipment_data) s0 of
        Inl h \<Rightarrow> Inl h
      | Inr s \<Rightarrow>
          Inr (\<lparr>result_shipment_id = shipment_id shipment_data,
                result_status = ''Delivered'',
                resolution = resolution_choice s\<rparr>, s))"

section \<open>Reading a trace\<close>

text \<open>The activities of a trace, in order.\<close>

fun activities :: "event list \<Rightarrow> activity_call list" where
  "activities [] = []"
| "activities (Execute_activity call t # es) = call # activities es"
| "activities (e # es) = activities es"

text \<open>The durations of its timers, in seconds.\<close>

fun timers :: "event list \<Rightarrow> nat list" where
  "timers [] = []"
| "timers (Sleep n # es) = n # timers es"
| "timers (e # es) = timers es"

text \<open>The lines logged as warnings.\<close>

fun warnings :: "event list \<Rightarrow> string list" where
  "warnings [] = []"
| "warnings (Log Warning msg # es) = msg # warnings es"
| "warnings (e # es) = warnings es"

text \<open>The status that an activity writes.\<close>

fun written_status :: "activity_call \<Rightarrow> string" where
  "written_status (Create_shipment_record data) = status data"
| "written_status (Update_shipment_status sid st loc det) = st"

text \<open>Where a run ended and what it returned, if it returned.\<close>

definition final_state ::
  "halt \<times> workflow_state + workflow_result \<times> workflow_state \<Rightarrow> workflow_state" where
  "final_state r = (case r of Inl (h, s) \<Rightarrow> s | Inr (res, s) \<Rightarrow> s)"

definition returned ::
  "halt \<times> workflow_state + workflow_result \<times> workflow_state \<Rightarrow> workflow_result option" where
  "returned r = (case r of Inl h \<Rightarrow> None | Inr (res, s) \<Rightarrow> Some res)"

text \<open>
  The statuses written and the timers slept on, in the order of the trace: the status
  for an activity, \<open>None\<close> for a timer.
\<close>

fun progress :: "event list \<Rightarrow> string option list" where
  "progress [] = []"
| "progress (Execute_activity call t # es) = Some (written_status call) # progress es"
| "progress (Sleep n # es) = None # progress es"
| "progress (Log lvl msg # es) = progress es"

text \<open>The status that the store shows for a shipment, read as the query endpoint reads it.\<close>

definition status_in :: "db_file \<Rightarrow> string \<Rightarrow> string option" where
  "status_in f sid = (case get_shipment f sid of Inl e \<Rightarrow> None | Inr entry \<Rightarrow> Some (status entry))"

text \<open>
  The states that a run goes through: the state after each statement of a list, up to
  the first statement that halts.
\<close>

fun run_states :: "step list \<Rightarrow> workflow_state \<Rightarrow> workflow_state list" where
  "run_states [] s = []"
| "run_states (f # fs) s = (case f s of Inl h \<Rightarrow> [] | Inr s' \<Rightarrow> s' # run_states fs s')"

section \<open>The resolution table of the specification\<close>

text \<open>
  Section 4.5 of the specification assigns a location label to each choice:
  expedite to Express Service, bribe_official to Expedited Processing, reroute to
  Alternative Port, wait to Standard Processing, and any other choice is treated as wait.
  This definition follows the specification, not the code; the code is compared with it.
\<close>

definition spec_location_label :: "string \<Rightarrow> string" where
  "spec_location_label choice =
     (if choice = ''expedite'' then ''Express Service''
      else if choice = ''bribe_official'' then ''Expedited Processing''
      else if choice = ''reroute'' then ''Alternative Port''
      else ''Standard Processing'')"

section \<open>A shipment for the examples\<close>

definition example_request :: CreateShipmentRequest where
  "example_request =
     \<lparr>project_name = ''Harbour Bridge'', supplier_name = ''Acme Steel'',
      origin = ''Warehouse Alpha'', destination = ''Oslo'', cargo_value = Some 125000,
      priority = ''Standard'', container_type = ''40ft Standard''\<rparr>"

definition example_shipment :: shipment_data where
  "example_shipment = new_shipment ''SHP-1'' example_request"

text \<open>Signals that arrive while the run is paused: none during the seven suspensions before.\<close>

definition at_pause :: "string list list \<Rightarrow> string list list" where
  "at_pause batches = [[], [], [], [], [], [], []] @ batches"

section \<open>Notions used in the proofs\<close>

text \<open>
  The field \<^verbatim>\<open>self.resolution_choice\<close> after the handler has run for every signal
  of some batches: the last of them, or the old value when there was none.
\<close>

definition latest :: "string option \<Rightarrow> string list list \<Rightarrow> string option" where
  "latest choice batches =
     (if concat batches = [] then choice else Some (last (concat batches)))"

text \<open>
  \<open>absorbed n s s'\<close>: from \<open>s\<close> to \<open>s'\<close> the run went through \<open>n\<close> suspensions and
  took in the signals that arrived during them.
\<close>

definition absorbed :: "nat \<Rightarrow> workflow_state \<Rightarrow> workflow_state \<Rightarrow> bool" where
  "absorbed n s s' \<longleftrightarrow>
     arrivals s' = drop n (arrivals s) \<and>
     resolution_choice s' = latest (resolution_choice s) (take n (arrivals s))"

text \<open>
  In \<open>delivers c s\<close> the signal \<open>c\<close> is the only one of the run: either it is still
  to arrive and nothing is recorded, or it is recorded and nothing else will arrive.
\<close>

definition delivers :: "string \<Rightarrow> workflow_state \<Rightarrow> bool" where
  "delivers c s \<longleftrightarrow>
     (resolution_choice s = None \<and> concat (arrivals s) = [c]) \<or>
     (resolution_choice s = Some c \<and> concat (arrivals s) = [])"

text \<open>
  The five branches of step 5 differ in four constants only: the level and the text of
  the line logged, the delay, and the head of the location written. Lemma
  \<open>process_resolution_branch\<close> below shows that this table and the branches agree.
\<close>

definition resolution_branch :: "string option \<Rightarrow> level \<times> string \<times> nat \<times> string" where
  "resolution_branch choice =
     (if choice = Some ''expedite'' then
        (Info, '': Processing express clearance (+$5000)...'', 2,
         ''Customs cleared (Express Service) - '')
      else if choice = Some ''bribe_official'' then
        (Info, '': Processing facilitation payment (+$2500)...'', 3,
         ''Customs cleared (Expedited Processing) - '')
      else if choice = Some ''reroute'' then
        (Info, '': Rerouting shipment through alternative port (+$3200)...'', 4,
         ''Rerouted and cleared (Alternative Port) - '')
      else if choice = Some ''wait'' then
        (Info, '': Waiting for standard processing (no additional cost)...'', 6,
         ''Customs cleared (Standard Processing) - '')
      else
        (Warning, '': Unknown choice, defaulting to standard processing'', 6,
         ''Customs cleared - ''))"

section \<open>Properties of the store activities\<close>

lemma update_shipment_status_unreadable:
  "load_shipments f = Inl e \<Longrightarrow> update_shipment_status sid st loc det f = (Inl e, f)"
  by (simp add: update_shipment_status_def)

lemma update_shipment_status_absent:
  "shipments sid = None \<Longrightarrow>
   update_shipment_status sid st loc det (File_json shipments) = (Inr (sid, st), File_json shipments)"
  by (simp add: update_shipment_status_def load_shipments_def)

lemma update_shipment_status_present:
  "shipments sid = Some entry \<Longrightarrow>
   update_shipment_status sid st loc det (File_json shipments) =
     (Inr (sid, st),
      File_json (shipments(sid \<mapsto> entry\<lparr>
        status := st,
        current_location := (if truthy loc then the loc else current_location entry),
        issue_details := (if det \<noteq> None then det else issue_details entry)\<rparr>)))"
  by (simp add: update_shipment_status_def load_shipments_def Let_def)

text \<open>
  C7. The store writes are idempotent: for every state of the file and every argument
  tuple, running the status update twice in a row with the same arguments leaves the
  file as one run leaves it and returns the same value, and so does the record creation.
\<close>

theorem upsert_idempotent:
  "update_shipment_status sid st loc det (snd (update_shipment_status sid st loc det f))
     = update_shipment_status sid st loc det f
   \<and> create_shipment_record data (snd (create_shipment_record data f))
     = create_shipment_record data f"
proof
  show "update_shipment_status sid st loc det (snd (update_shipment_status sid st loc det f))
          = update_shipment_status sid st loc det f"
  proof (cases f)
    case (File_json shipments)
    show ?thesis
    proof (cases "shipments sid")
      case None
      with File_json show ?thesis by (simp add: update_shipment_status_absent)
    next
      case (Some entry)
      with File_json show ?thesis by (simp add: update_shipment_status_present)
    qed
  qed (simp_all add: update_shipment_status_def load_shipments_def)
next
  show "create_shipment_record data (snd (create_shipment_record data f))
          = create_shipment_record data f"
    by (cases f) (simp_all add: create_shipment_record_def load_shipments_def)
qed

section \<open>What a suspension and the pause change\<close>

lemma activities_append [simp]: "activities (xs @ ys) = activities xs @ activities ys"
  by (induction xs rule: activities.induct) simp_all

lemma timers_append [simp]: "timers (xs @ ys) = timers xs @ timers ys"
  by (induction xs rule: timers.induct) simp_all

lemma warnings_append [simp]: "warnings (xs @ ys) = warnings xs @ warnings ys"
  by (induction xs rule: warnings.induct) simp_all

lemma handle_all_proj [simp]:
  "shipments_file (handle_all b s) = shipments_file s"
  "arrivals (handle_all b s) = arrivals s"
  "activities (trace (handle_all b s)) = activities (trace s)"
  "timers (trace (handle_all b s)) = timers (trace s)"
  "warnings (trace (handle_all b s)) = warnings (trace s)"
  by (induction b arbitrary: s; simp add: handle_resolution_def)+

lemma handle_all_choice:
  "resolution_choice (handle_all b s) = latest (resolution_choice s) [b]"
  by (induction b arbitrary: s) (simp_all add: handle_resolution_def latest_def)

lemma suspend_proj [simp]:
  "shipments_file (suspend s) = shipments_file s"
  "activities (trace (suspend s)) = activities (trace s)"
  "timers (trace (suspend s)) = timers (trace s)"
  "warnings (trace (suspend s)) = warnings (trace s)"
  by (simp_all add: suspend_def split: list.split)

lemma latest_Nil [simp]: "latest c [] = c"
  by (simp add: latest_def)

lemma latest_append: "latest c (xs @ ys) = latest (latest c xs) ys"
  by (simp add: latest_def last_append del: concat_eq_Nil_conv)

lemma suspend_absorbed: "absorbed (Suc 0) s (suspend s)"
  by (cases "arrivals s") (simp_all add: absorbed_def suspend_def handle_all_choice drop_Suc)

lemma absorbed_refl [simp]: "absorbed 0 s s"
  by (simp add: absorbed_def)

lemma absorbed_trans: "absorbed m s s' \<Longrightarrow> absorbed n s' s'' \<Longrightarrow> absorbed (m + n) s s''"
  by (simp add: absorbed_def take_add latest_append add.commute)

lemma absorbed_upd [simp]:
  "absorbed n s (s'\<lparr>trace := t\<rparr>) = absorbed n s s'"
  "absorbed n s (s'\<lparr>shipments_file := f\<rparr>) = absorbed n s s'"
  "absorbed n (s\<lparr>trace := t\<rparr>) s' = absorbed n s s'"
  "absorbed n (s\<lparr>shipments_file := f\<rparr>) s' = absorbed n s s'"
  by (simp_all add: absorbed_def)

lemma absorbed_suspend [simp]: "absorbed n s s' \<Longrightarrow> absorbed (Suc n) s (suspend s')"
  using absorbed_trans [OF _ suspend_absorbed, of n s s'] by simp

lemma concat_take_drop:
  "concat (take n xs) @ concat (drop n xs) = concat xs"
  by (metis append_take_drop_id concat_append)

lemma absorbed_quiet:
  assumes "absorbed n s s'" and "concat (arrivals s) = []"
  shows "concat (arrivals s') = [] \<and> resolution_choice s' = resolution_choice s"
proof -
  from assms(2) concat_take_drop [of n "arrivals s"]
  have "concat (take n (arrivals s)) = []" "concat (drop n (arrivals s)) = []"
    by (simp_all del: concat_eq_Nil_conv)
  with assms(1) show ?thesis
    by (simp add: absorbed_def latest_def del: concat_eq_Nil_conv)
qed

lemma absorbed_delivers:
  assumes a: "absorbed n s s'" and d: "delivers c s"
  shows "delivers c s'"
proof (cases "resolution_choice s")
  case None
  with d have "concat (arrivals s) = [c]" by (simp add: delivers_def)
  with concat_take_drop [of n "arrivals s"]
  have "concat (take n (arrivals s)) @ concat (drop n (arrivals s)) = [c]" by simp
  then consider
    "concat (take n (arrivals s)) = [c]" "concat (drop n (arrivals s)) = []"
    | "concat (take n (arrivals s)) = []" "concat (drop n (arrivals s)) = [c]"
    by (cases "concat (take n (arrivals s))") (simp_all del: concat_eq_Nil_conv)
  then show ?thesis
    using a None
    by cases (simp_all add: absorbed_def latest_def delivers_def del: concat_eq_Nil_conv)
next
  case (Some c')
  with d have "resolution_choice s = Some c" "concat (arrivals s) = []"
    by (simp_all add: delivers_def)
  with absorbed_quiet [OF a] show ?thesis by (simp add: delivers_def)
qed

lemma delivers_upd [simp]:
  "delivers c (s\<lparr>trace := t\<rparr>) = delivers c s"
  "delivers c (s\<lparr>shipments_file := f\<rparr>) = delivers c s"
  by (simp_all add: delivers_def)

subsection \<open>The pause\<close>

lemma await_signal_returns:
  "await_signal bs s = Inr s' \<Longrightarrow>
     resolution_choice s' \<noteq> None
     \<and> shipments_file s' = shipments_file s
     \<and> activities (trace s') = activities (trace s)
     \<and> timers (trace s') = timers (trace s)
     \<and> warnings (trace s') = warnings (trace s)"
proof (induction bs arbitrary: s)
  case Nil
  then show ?case by simp
next
  case (Cons b bs)
  show ?case
  proof (cases "resolution_choice (handle_all b (s\<lparr>arrivals := bs\<rparr>)) = None")
    case True
    with Cons.prems have "await_signal bs (handle_all b (s\<lparr>arrivals := bs\<rparr>)) = Inr s'"
      by simp
    from Cons.IH [OF this] show ?thesis by simp
  next
    case False
    with Cons.prems show ?thesis by auto
  qed
qed

lemma wait_condition_returns:
  "wait_condition s = Inr s' \<Longrightarrow>
     resolution_choice s' \<noteq> None
     \<and> shipments_file s' = shipments_file s
     \<and> activities (trace s') = activities (trace s)
     \<and> timers (trace s') = timers (trace s)
     \<and> warnings (trace s') = warnings (trace s)"
  using await_signal_returns [of "arrivals s" s s']
  by (auto simp: wait_condition_def split: if_splits)

lemma await_signal_delivers:
  "resolution_choice s = None \<Longrightarrow> concat bs = [c] \<Longrightarrow>
   \<exists>s'. await_signal bs s = Inr s' \<and> resolution_choice s' = Some c \<and> concat (arrivals s') = []"
proof (induction bs arbitrary: s)
  case Nil
  then show ?case by simp
next
  case (Cons b bs)
  show ?case
  proof (cases "b = []")
    case True
    with Cons.prems have "concat bs = [c]" by simp
    from Cons.IH [OF _ this, of "s\<lparr>arrivals := bs\<rparr>"] Cons.prems True
    show ?thesis by simp
  next
    case False
    with Cons.prems have "b = [c]" "concat bs = []"
      by (auto simp: append_eq_Cons_conv)
    then show ?thesis
      by (simp add: handle_resolution_def)
  qed
qed

lemma wait_condition_delivers:
  assumes "delivers c s"
  shows "\<exists>s'. wait_condition s = Inr s' \<and> resolution_choice s' = Some c \<and> concat (arrivals s') = []"
proof (cases "resolution_choice s")
  case None
  with assms have "concat (arrivals s) = [c]" by (simp add: delivers_def)
  from await_signal_delivers [OF None this] None show ?thesis
    by (simp add: wait_condition_def)
next
  case (Some a)
  with assms show ?thesis
    by (simp add: wait_condition_def delivers_def)
qed

subsection \<open>Steps in sequence\<close>

lemma run_steps_append:
  "run_steps (fs @ gs) s = (case run_steps fs s of Inl h \<Rightarrow> Inl h | Inr s' \<Rightarrow> run_steps gs s')"
  by (induction fs arbitrary: s) (simp_all split: sum.split)

lemmas step_defs = log_def sleep_def execute_activity_def create_shipment_record_def
  load_shipments_def Let_def

text \<open>A logged line, a timer and a status update, as each stage of the run has them.\<close>

lemma update_block:
  assumes "shipments_file s = File_json shipments" and "shipments sid = Some entry"
    and "loc \<noteq> []"
  shows "\<exists>s2. run_steps [log lvl m, sleep d,
           execute_activity (Update_shipment_status sid st (Some loc) None) t] s = Inr s2
     \<and> shipments_file s2 =
         File_json (shipments(sid \<mapsto> entry\<lparr>status := st, current_location := loc\<rparr>))
     \<and> activities (trace s2) =
         activities (trace s) @ [Update_shipment_status sid st (Some loc) None]
     \<and> timers (trace s2) = timers (trace s) @ [d]
     \<and> warnings (trace s2) = warnings (trace s) @ (case lvl of Info \<Rightarrow> [] | Warning \<Rightarrow> [m])
     \<and> absorbed (Suc (Suc 0)) s s2"
  using assms
  by (cases lvl) (simp_all add: step_defs update_shipment_status_present truthy_def)

lemma process_resolution_branch:
  "process_resolution p s =
     (case resolution_branch (resolution_choice s) of (lvl, msg, d, loc) \<Rightarrow>
        run_steps
          [log lvl (shipment_id p @ msg), sleep d,
           execute_activity (Update_shipment_status (shipment_id p) ''Cleared Customs''
             (Some (loc @ destination p)) None) 10] s)"
  by (simp add: process_resolution_def resolution_branch_def Let_def del: run_steps.simps)

subsection \<open>The stages of the run\<close>

lemma until_issue_detected_runs:
  assumes "shipments_file s = File_json shipments"
  shows "\<exists>s1. run_steps (until_issue_detected p) s = Inr s1
     \<and> shipments_file s1 = File_json (shipments(shipment_id p \<mapsto> p\<lparr>
          status := ''Issue Detected'',
          current_location := ''Customs checkpoint - '' @ destination p,
          issue_details := Some ''Documentation discrepancy found - requires manual review''\<rparr>))
     \<and> activities (trace s1) = activities (trace s) @
         [Create_shipment_record p,
          Update_shipment_status (shipment_id p) ''In Transit'' (Some (''En route to '' @ destination p)) None,
          Update_shipment_status (shipment_id p) ''At Customs'' (Some (''Customs checkpoint - '' @ destination p)) None,
          Update_shipment_status (shipment_id p) ''Issue Detected'' (Some (''Customs checkpoint - '' @ destination p))
            (Some ''Documentation discrepancy found - requires manual review'')]
     \<and> timers (trace s1) = timers (trace s) @ [3, 3, 2]
     \<and> warnings (trace s1) = warnings (trace s)
     \<and> absorbed (Suc (Suc (Suc (Suc (Suc (Suc (Suc 0))))))) s s1"
  using assms
  by (simp add: until_issue_detected_def step_defs update_shipment_status_present truthy_def)


lemma resolution_branch_location:
  "resolution_branch choice = (lvl, msg, d, loc) \<Longrightarrow> loc \<noteq> []"
  by (auto simp: resolution_branch_def split: if_splits)

lemma process_resolution_runs:
  assumes f: "shipments_file s = File_json shipments"
    and e: "shipments (shipment_id p) = Some entry"
    and b: "resolution_branch (resolution_choice s) = (lvl, msg, d, loc)"
  shows "\<exists>s2. process_resolution p s = Inr s2
     \<and> shipments_file s2 = File_json (shipments(shipment_id p \<mapsto>
          entry\<lparr>status := ''Cleared Customs'', current_location := loc @ destination p\<rparr>))
     \<and> activities (trace s2) = activities (trace s) @
          [Update_shipment_status (shipment_id p) ''Cleared Customs''
             (Some (loc @ destination p)) None]
     \<and> timers (trace s2) = timers (trace s) @ [d]
     \<and> warnings (trace s2) =
          warnings (trace s) @ (case lvl of Info \<Rightarrow> [] | Warning \<Rightarrow> [shipment_id p @ msg])
     \<and> absorbed (Suc (Suc 0)) s s2"
proof -
  from resolution_branch_location [OF b] have "loc @ destination p \<noteq> []" by simp
  from update_block [OF f e this] show ?thesis
    by (simp only: process_resolution_branch b prod.case)
qed

lemma from_pause_halts:
  assumes "wait_condition
      (s\<lparr>trace := trace s @ [Log Info (shipment_id p @ '': Waiting for resolution signal...'')]\<rparr>)
      = Inl h"
  shows "run_steps (from_pause p) s = Inl h"
  using assms by (simp add: from_pause_def Let_def log_def)

lemma from_pause_runs:
  assumes f: "shipments_file s = File_json shipments"
    and e: "shipments (shipment_id p) = Some entry"
    and w: "wait_condition
      (s\<lparr>trace := trace s @ [Log Info (shipment_id p @ '': Waiting for resolution signal...'')]\<rparr>)
      = Inr s'"
    and b: "resolution_branch (resolution_choice s') = (lvl, msg, d, loc)"
  shows "\<exists>s3. run_steps (from_pause p) s = Inr s3
     \<and> shipments_file s3 = File_json (shipments(shipment_id p \<mapsto> entry\<lparr>
          status := ''Delivered'',
          current_location := ''Delivered to '' @ destination p\<rparr>))
     \<and> activities (trace s3) = activities (trace s) @
         [Update_shipment_status (shipment_id p) ''Cleared Customs''
            (Some (loc @ destination p)) None,
          Update_shipment_status (shipment_id p) ''Delivered''
            (Some (''Delivered to '' @ destination p)) None]
     \<and> timers (trace s3) = timers (trace s) @ [d, 3]
     \<and> warnings (trace s3) =
          warnings (trace s) @ (case lvl of Info \<Rightarrow> [] | Warning \<Rightarrow> [shipment_id p @ msg])
     \<and> absorbed (Suc (Suc (Suc (Suc 0)))) s' s3"
proof -
  let ?s1 = "s'\<lparr>trace := trace s' @
     [Log Info (shipment_id p @ '': Received resolution choice: '' @ py_str (resolution_choice s'))]\<rparr>"
  from wait_condition_returns [OF w] f
  have f': "shipments_file ?s1 = File_json shipments"
    and a': "activities (trace ?s1) = activities (trace s)"
    and t': "timers (trace ?s1) = timers (trace s)"
    and g': "warnings (trace ?s1) = warnings (trace s)"
    by simp_all
  have b': "resolution_branch (resolution_choice ?s1) = (lvl, msg, d, loc)"
    using b by simp
  from process_resolution_runs [OF f' e b'] obtain s2 where
    pr: "process_resolution p ?s1 = Inr s2"
    and f2: "shipments_file s2 = File_json (shipments(shipment_id p \<mapsto>
          entry\<lparr>status := ''Cleared Customs'', current_location := loc @ destination p\<rparr>))"
    and a2: "activities (trace s2) = activities (trace ?s1) @
          [Update_shipment_status (shipment_id p) ''Cleared Customs''
             (Some (loc @ destination p)) None]"
    and t2: "timers (trace s2) = timers (trace ?s1) @ [d]"
    and g2: "warnings (trace s2) =
          warnings (trace ?s1) @ (case lvl of Info \<Rightarrow> [] | Warning \<Rightarrow> [shipment_id p @ msg])"
    and ab2: "absorbed (Suc (Suc 0)) ?s1 s2"
    by blast
  have e2: "(shipments(shipment_id p \<mapsto>
          entry\<lparr>status := ''Cleared Customs'', current_location := loc @ destination p\<rparr>))
        (shipment_id p) = Some (entry\<lparr>status := ''Cleared Customs'',
          current_location := loc @ destination p\<rparr>)"
    by simp
  have ne: "''Delivered to '' @ destination p \<noteq> []" by simp
  from update_block [OF f2 e2 ne, of Info "shipment_id p @ '': Out for delivery...''" 3 "''Delivered''" 10]
  obtain s3 where
    blk: "run_steps [log Info (shipment_id p @ '': Out for delivery...''), sleep 3,
           execute_activity (Update_shipment_status (shipment_id p) ''Delivered''
             (Some (''Delivered to '' @ destination p)) None) 10] s2 = Inr s3"
    and f3': "shipments_file s3 = File_json ((shipments(shipment_id p \<mapsto>
          entry\<lparr>status := ''Cleared Customs'', current_location := loc @ destination p\<rparr>))
          (shipment_id p \<mapsto> entry\<lparr>status := ''Cleared Customs'',
             current_location := loc @ destination p\<rparr>\<lparr>status := ''Delivered'',
             current_location := ''Delivered to '' @ destination p\<rparr>))"
    and a3: "activities (trace s3) = activities (trace s2) @
         [Update_shipment_status (shipment_id p) ''Delivered''
            (Some (''Delivered to '' @ destination p)) None]"
    and t3: "timers (trace s3) = timers (trace s2) @ [3]"
    and g3': "warnings (trace s3) = warnings (trace s2) @ (case Info of Info \<Rightarrow> [] | Warning \<Rightarrow> [shipment_id p @ '': Out for delivery...''])"
    and ab3: "absorbed (Suc (Suc 0)) s2 s3"
    by blast
  from f3' have f3: "shipments_file s3 = File_json (shipments(shipment_id p \<mapsto> entry\<lparr>
          status := ''Delivered'', current_location := ''Delivered to '' @ destination p\<rparr>))"
    by simp
  from g3' have g3: "warnings (trace s3) = warnings (trace s2)" by simp
  let ?s4 = "s3\<lparr>trace := trace s3 @ [Log Info (shipment_id p @ '': Shipment lifecycle complete!'')]\<rparr>"
  have split: "from_pause p =
     [log Info (shipment_id p @ '': Waiting for resolution signal...''), wait_condition,
      (\<lambda>s. log Info (shipment_id p @ '': Received resolution choice: '' @ py_str (resolution_choice s)) s),
      process_resolution p]
     @ [log Info (shipment_id p @ '': Out for delivery...''), sleep 3,
        execute_activity (Update_shipment_status (shipment_id p) ''Delivered''
          (Some (''Delivered to '' @ destination p)) None) 10]
     @ [log Info (shipment_id p @ '': Shipment lifecycle complete!'')]"
    by (simp add: from_pause_def Let_def)
  have head: "run_steps
     [log Info (shipment_id p @ '': Waiting for resolution signal...''), wait_condition,
      (\<lambda>s. log Info (shipment_id p @ '': Received resolution choice: '' @ py_str (resolution_choice s)) s),
      process_resolution p] s = Inr s2"
    using w pr by (simp add: log_def)
  have "run_steps (from_pause p) s =
      run_steps [log Info (shipment_id p @ '': Shipment lifecycle complete!'')] s3"
    by (simp only: split run_steps_append head blk sum.case)
  then have run: "run_steps (from_pause p) s = Inr ?s4"
    by (simp add: log_def)
  from absorbed_trans [OF ab2 ab3] have "absorbed (Suc (Suc (Suc (Suc 0)))) s' s3" by simp
  with run f3 a3 t3 g3 a2 t2 g2 a' t' g' show ?thesis by simp
qed

subsection \<open>The whole run\<close>

lemma start_workflow_simps [simp]:
  "resolution_choice (start_workflow signals f) = None"
  "shipments_file (start_workflow signals f) = f"
  "trace (start_workflow signals f) = []"
  "arrivals (start_workflow signals f) = signals"
  by (simp_all add: start_workflow_def)

lemma run_halts:
  assumes u: "run_steps (until_issue_detected p) s0 = Inr s1"
    and w: "wait_condition
      (s1\<lparr>trace := trace s1 @ [Log Info (shipment_id p @ '': Waiting for resolution signal...'')]\<rparr>)
      = Inl h"
  shows "run p s0 = Inl h"
  using from_pause_halts [OF w] u by (simp add: run_def run_steps_append)

lemma run_returns:
  assumes u: "run_steps (until_issue_detected p) s0 = Inr s1"
    and f: "shipments_file s1 = File_json shipments"
    and e: "shipments (shipment_id p) = Some entry"
    and w: "wait_condition
      (s1\<lparr>trace := trace s1 @ [Log Info (shipment_id p @ '': Waiting for resolution signal...'')]\<rparr>)
      = Inr s'"
    and b: "resolution_branch (resolution_choice s') = (lvl, msg, d, loc)"
  shows "\<exists>s3. run p s0 = Inr (\<lparr>result_shipment_id = shipment_id p, result_status = ''Delivered'',
                               resolution = resolution_choice s3\<rparr>, s3)
     \<and> shipments_file s3 = File_json (shipments(shipment_id p \<mapsto> entry\<lparr>
          status := ''Delivered'',
          current_location := ''Delivered to '' @ destination p\<rparr>))
     \<and> activities (trace s3) = activities (trace s1) @
         [Update_shipment_status (shipment_id p) ''Cleared Customs''
            (Some (loc @ destination p)) None,
          Update_shipment_status (shipment_id p) ''Delivered''
            (Some (''Delivered to '' @ destination p)) None]
     \<and> timers (trace s3) = timers (trace s1) @ [d, 3]
     \<and> warnings (trace s3) =
          warnings (trace s1) @ (case lvl of Info \<Rightarrow> [] | Warning \<Rightarrow> [shipment_id p @ msg])
     \<and> absorbed (Suc (Suc (Suc (Suc 0)))) s' s3"
  using from_pause_runs [OF f e w b] u by (auto simp: run_def run_steps_append)

lemma shipment_update_order:
  "(r :: shipment_data)\<lparr>issue_details := d, status := s, current_location := l\<rparr> =
   r\<lparr>status := s, current_location := l, issue_details := d\<rparr>"
  by (cases r) simp

text \<open>A run in which exactly one signal arrives, at any moment.\<close>

lemma run_single_signal:
  assumes c: "concat signals = [c]"
    and b: "resolution_branch (Some c) = (lvl, msg, d, loc)"
  shows "\<exists>s3. run p (start_workflow signals (File_json shipments)) =
           Inr (\<lparr>result_shipment_id = shipment_id p, result_status = ''Delivered'',
                 resolution = Some c\<rparr>, s3)
     \<and> shipments_file s3 = File_json (shipments(shipment_id p \<mapsto> p\<lparr>
          status := ''Delivered'',
          current_location := ''Delivered to '' @ destination p,
          issue_details := Some ''Documentation discrepancy found - requires manual review''\<rparr>))
     \<and> activities (trace s3) =
         [Create_shipment_record p,
          Update_shipment_status (shipment_id p) ''In Transit''
            (Some (''En route to '' @ destination p)) None,
          Update_shipment_status (shipment_id p) ''At Customs''
            (Some (''Customs checkpoint - '' @ destination p)) None,
          Update_shipment_status (shipment_id p) ''Issue Detected''
            (Some (''Customs checkpoint - '' @ destination p))
            (Some ''Documentation discrepancy found - requires manual review''),
          Update_shipment_status (shipment_id p) ''Cleared Customs''
            (Some (loc @ destination p)) None,
          Update_shipment_status (shipment_id p) ''Delivered''
            (Some (''Delivered to '' @ destination p)) None]
     \<and> timers (trace s3) = [3, 3, 2, d, 3]
     \<and> warnings (trace s3) = (case lvl of Info \<Rightarrow> [] | Warning \<Rightarrow> [shipment_id p @ msg])"
proof -
  let ?s0 = "start_workflow signals (File_json shipments)"
  let ?entry = "p\<lparr>status := ''Issue Detected'',
          current_location := ''Customs checkpoint - '' @ destination p,
          issue_details := Some ''Documentation discrepancy found - requires manual review''\<rparr>"
  have "shipments_file ?s0 = File_json shipments" by simp
  from until_issue_detected_runs [OF this, of p] obtain s1 where
    u: "run_steps (until_issue_detected p) ?s0 = Inr s1"
    and f: "shipments_file s1 = File_json (shipments(shipment_id p \<mapsto> ?entry))"
    and a: "activities (trace s1) = activities (trace ?s0) @
         [Create_shipment_record p,
          Update_shipment_status (shipment_id p) ''In Transit'' (Some (''En route to '' @ destination p)) None,
          Update_shipment_status (shipment_id p) ''At Customs'' (Some (''Customs checkpoint - '' @ destination p)) None,
          Update_shipment_status (shipment_id p) ''Issue Detected'' (Some (''Customs checkpoint - '' @ destination p))
            (Some ''Documentation discrepancy found - requires manual review'')]"
    and t: "timers (trace s1) = timers (trace ?s0) @ [3, 3, 2]"
    and g: "warnings (trace s1) = warnings (trace ?s0)"
    and ab: "absorbed (Suc (Suc (Suc (Suc (Suc (Suc (Suc 0))))))) ?s0 s1"
    by blast
  let ?s1 = "s1\<lparr>trace := trace s1 @ [Log Info (shipment_id p @ '': Waiting for resolution signal...'')]\<rparr>"
  from c have "delivers c ?s0" by (simp add: delivers_def)
  from absorbed_delivers [OF ab this] have "delivers c ?s1" by simp
  from wait_condition_delivers [OF this] obtain s' where
    w: "wait_condition ?s1 = Inr s'" and rc: "resolution_choice s' = Some c"
    and q: "concat (arrivals s') = []"
    by blast
  have e: "(shipments(shipment_id p \<mapsto> ?entry)) (shipment_id p) = Some ?entry" by simp
  from b rc have b': "resolution_branch (resolution_choice s') = (lvl, msg, d, loc)" by simp
  from run_returns [OF u f e w b'] obtain s3 where
    r: "run p ?s0 = Inr (\<lparr>result_shipment_id = shipment_id p, result_status = ''Delivered'',
                               resolution = resolution_choice s3\<rparr>, s3)"
    and f3: "shipments_file s3 = File_json ((shipments(shipment_id p \<mapsto> ?entry))(shipment_id p \<mapsto> ?entry\<lparr>
          status := ''Delivered'',
          current_location := ''Delivered to '' @ destination p\<rparr>))"
    and a3: "activities (trace s3) = activities (trace s1) @
         [Update_shipment_status (shipment_id p) ''Cleared Customs''
            (Some (loc @ destination p)) None,
          Update_shipment_status (shipment_id p) ''Delivered''
            (Some (''Delivered to '' @ destination p)) None]"
    and t3: "timers (trace s3) = timers (trace s1) @ [d, 3]"
    and g3: "warnings (trace s3) =
          warnings (trace s1) @ (case lvl of Info \<Rightarrow> [] | Warning \<Rightarrow> [shipment_id p @ msg])"
    and ab3: "absorbed (Suc (Suc (Suc (Suc 0)))) s' s3"
    by blast
  from absorbed_quiet [OF ab3 q] rc have "resolution_choice s3 = Some c" by simp
  with r f3 a3 t3 g3 a t g show ?thesis by (simp add: shipment_update_order)
qed

section \<open>The claims about the workflow\<close>

text \<open>
  C1. For every shipment payload, every content of the store and each of the four
  recognized choices, a run to which that choice is signalled (as the only signal, at
  whatever moment) returns the result with status Delivered and the choice sent as
  its resolution, and its Cleared Customs update writes a location that carries, in
  brackets, the label that the table of section 4.5 assigns to the choice.
\<close>

theorem recognized_choice_delivered:
  assumes "c \<in> {''expedite'', ''bribe_official'', ''reroute'', ''wait''}"
    and "concat signals = [c]"
  shows "returned (run p (start_workflow signals (File_json shipments))) =
           Some \<lparr>result_shipment_id = shipment_id p, result_status = ''Delivered'',
                  resolution = Some c\<rparr>
     \<and> activities (trace (final_state (run p (start_workflow signals (File_json shipments))))) =
         [Create_shipment_record p,
          Update_shipment_status (shipment_id p) ''In Transit''
            (Some (''En route to '' @ destination p)) None,
          Update_shipment_status (shipment_id p) ''At Customs''
            (Some (''Customs checkpoint - '' @ destination p)) None,
          Update_shipment_status (shipment_id p) ''Issue Detected''
            (Some (''Customs checkpoint - '' @ destination p))
            (Some ''Documentation discrepancy found - requires manual review''),
          Update_shipment_status (shipment_id p) ''Cleared Customs''
            (Some ((if c = ''reroute'' then ''Rerouted and cleared'' else ''Customs cleared'')
                   @ '' ('' @ spec_location_label c @ '') - '' @ destination p)) None,
          Update_shipment_status (shipment_id p) ''Delivered''
            (Some (''Delivered to '' @ destination p)) None]"
proof -
  from assms(1) consider "c = ''expedite''" | "c = ''bribe_official''" | "c = ''reroute''"
    | "c = ''wait''" by blast
  then show ?thesis
  proof cases
    case 1
    then have "resolution_branch (Some c) =
      (Info, '': Processing express clearance (+$5000)...'', 2,
       ''Customs cleared (Express Service) - '')"
      by (simp add: resolution_branch_def)
    from run_single_signal [OF assms(2) this, of p shipments] 1 show ?thesis
      by (auto simp: returned_def final_state_def spec_location_label_def)
  next
    case 2
    then have "resolution_branch (Some c) =
      (Info, '': Processing facilitation payment (+$2500)...'', 3,
       ''Customs cleared (Expedited Processing) - '')"
      by (simp add: resolution_branch_def)
    from run_single_signal [OF assms(2) this, of p shipments] 2 show ?thesis
      by (auto simp: returned_def final_state_def spec_location_label_def)
  next
    case 3
    then have "resolution_branch (Some c) =
      (Info, '': Rerouting shipment through alternative port (+$3200)...'', 4,
       ''Rerouted and cleared (Alternative Port) - '')"
      by (simp add: resolution_branch_def)
    from run_single_signal [OF assms(2) this, of p shipments] 3 show ?thesis
      by (auto simp: returned_def final_state_def spec_location_label_def)
  next
    case 4
    then have "resolution_branch (Some c) =
      (Info, '': Waiting for standard processing (no additional cost)...'', 6,
       ''Customs cleared (Standard Processing) - '')"
      by (simp add: resolution_branch_def)
    from run_single_signal [OF assms(2) this, of p shipments] 4 show ?thesis
      by (auto simp: returned_def final_state_def spec_location_label_def)
  qed
qed

theorem recognized_choice_delivered_witness:
  "''reroute'' \<in> {''expedite'', ''bribe_official'', ''reroute'', ''wait''}
   \<and> concat (at_pause [[''reroute'']]) = [''reroute'']
   \<and> returned (run example_shipment
        (start_workflow (at_pause [[''reroute'']]) (File_json Map.empty))) =
        Some \<lparr>result_shipment_id = ''SHP-1'', result_status = ''Delivered'',
               resolution = Some ''reroute''\<rparr>
   \<and> activities (trace (final_state (run example_shipment
        (start_workflow (at_pause [[''reroute'']]) (File_json Map.empty))))) =
       [Create_shipment_record example_shipment,
        Update_shipment_status ''SHP-1'' ''In Transit'' (Some ''En route to Oslo'') None,
        Update_shipment_status ''SHP-1'' ''At Customs'' (Some ''Customs checkpoint - Oslo'') None,
        Update_shipment_status ''SHP-1'' ''Issue Detected'' (Some ''Customs checkpoint - Oslo'')
          (Some ''Documentation discrepancy found - requires manual review''),
        Update_shipment_status ''SHP-1'' ''Cleared Customs''
          (Some ''Rerouted and cleared (Alternative Port) - Oslo'') None,
        Update_shipment_status ''SHP-1'' ''Delivered'' (Some ''Delivered to Oslo'') None]"
  using recognized_choice_delivered
    [of "''reroute''" "at_pause [[''reroute'']]" example_shipment Map.empty]
  by (simp add: at_pause_def example_shipment_def example_request_def new_shipment_def
      spec_location_label_def)

text \<open>
  C2. The claim: a choice outside the four is handled as wait is, with the same delay
  and the same Standard Processing label. The delay is the same, the label is not: for
  the choice sabotage the Cleared Customs update writes a location without any label,
  where the run with wait writes the one with Standard Processing.
\<close>

theorem unknown_choice_label_counterexample:
  "Update_shipment_status ''SHP-1'' ''Cleared Customs''
     (Some (''Customs cleared ('' @ spec_location_label ''sabotage'' @ '') - Oslo'')) None
     \<in> set (activities (trace (final_state (run example_shipment
          (start_workflow (at_pause [[''wait'']]) (File_json Map.empty))))))
   \<and> Update_shipment_status ''SHP-1'' ''Cleared Customs''
     (Some (''Customs cleared ('' @ spec_location_label ''sabotage'' @ '') - Oslo'')) None
     \<notin> set (activities (trace (final_state (run example_shipment
          (start_workflow (at_pause [[''sabotage'']]) (File_json Map.empty))))))
   \<and> Update_shipment_status ''SHP-1'' ''Cleared Customs'' (Some ''Customs cleared - Oslo'') None
     \<in> set (activities (trace (final_state (run example_shipment
          (start_workflow (at_pause [[''sabotage'']]) (File_json Map.empty))))))"
proof -
  have w: "resolution_branch (Some ''wait'') =
      (Info, '': Waiting for standard processing (no additional cost)...'', 6,
       ''Customs cleared (Standard Processing) - '')"
    by (simp add: resolution_branch_def)
  have s: "resolution_branch (Some ''sabotage'') =
      (Warning, '': Unknown choice, defaulting to standard processing'', 6,
       ''Customs cleared - '')"
    by (simp add: resolution_branch_def)
  have cw: "concat (at_pause [[''wait'']]) = [''wait'']"
    and cs: "concat (at_pause [[''sabotage'']]) = [''sabotage'']"
    by (simp_all add: at_pause_def)
  from run_single_signal [OF cw w, of example_shipment Map.empty]
    run_single_signal [OF cs s, of example_shipment Map.empty]
  show ?thesis
    by (auto simp: final_state_def spec_location_label_def example_shipment_def
        example_request_def new_shipment_def)
qed

text \<open>
  C2 as amended. For every choice outside the four, signalled as the only signal, the run
  still returns Delivered with that choice as its resolution; it sleeps on the same
  timers as a run with wait (6 seconds before Cleared Customs); it logs one warning;
  and its Cleared Customs update writes the location \<open>Customs cleared - destination\<close>,
  without a label.
\<close>

theorem unknown_choice_delivered:
  assumes "c \<notin> {''expedite'', ''bribe_official'', ''reroute'', ''wait''}"
    and "concat signals = [c]"
  shows "returned (run p (start_workflow signals (File_json shipments))) =
           Some \<lparr>result_shipment_id = shipment_id p, result_status = ''Delivered'',
                  resolution = Some c\<rparr>
     \<and> activities (trace (final_state (run p (start_workflow signals (File_json shipments))))) =
         [Create_shipment_record p,
          Update_shipment_status (shipment_id p) ''In Transit''
            (Some (''En route to '' @ destination p)) None,
          Update_shipment_status (shipment_id p) ''At Customs''
            (Some (''Customs checkpoint - '' @ destination p)) None,
          Update_shipment_status (shipment_id p) ''Issue Detected''
            (Some (''Customs checkpoint - '' @ destination p))
            (Some ''Documentation discrepancy found - requires manual review''),
          Update_shipment_status (shipment_id p) ''Cleared Customs''
            (Some (''Customs cleared - '' @ destination p)) None,
          Update_shipment_status (shipment_id p) ''Delivered''
            (Some (''Delivered to '' @ destination p)) None]
     \<and> timers (trace (final_state (run p (start_workflow signals (File_json shipments))))) =
         [3, 3, 2, 6, 3]
     \<and> timers (trace (final_state (run p (start_workflow [[''wait'']] (File_json shipments))))) =
         [3, 3, 2, 6, 3]
     \<and> warnings (trace (final_state (run p (start_workflow signals (File_json shipments))))) =
         [shipment_id p @ '': Unknown choice, defaulting to standard processing'']"
proof -
  have w: "resolution_branch (Some ''wait'') =
      (Info, '': Waiting for standard processing (no additional cost)...'', 6,
       ''Customs cleared (Standard Processing) - '')"
    by (simp add: resolution_branch_def)
  from assms(1) have u: "resolution_branch (Some c) =
      (Warning, '': Unknown choice, defaulting to standard processing'', 6,
       ''Customs cleared - '')"
    by (simp add: resolution_branch_def)
  have cw: "concat [[''wait'']] = [''wait'']" by simp
  from run_single_signal [OF assms(2) u, of p shipments]
    run_single_signal [OF cw w, of p shipments]
  show ?thesis
    by (auto simp: returned_def final_state_def)
qed

theorem unknown_choice_delivered_witness:
  "''sabotage'' \<notin> {''expedite'', ''bribe_official'', ''reroute'', ''wait''}
   \<and> concat (at_pause [[''sabotage'']]) = [''sabotage'']
   \<and> returned (run example_shipment
        (start_workflow (at_pause [[''sabotage'']]) (File_json Map.empty))) =
        Some \<lparr>result_shipment_id = ''SHP-1'', result_status = ''Delivered'',
               resolution = Some ''sabotage''\<rparr>
   \<and> timers (trace (final_state (run example_shipment
        (start_workflow (at_pause [[''sabotage'']]) (File_json Map.empty))))) = [3, 3, 2, 6, 3]
   \<and> warnings (trace (final_state (run example_shipment
        (start_workflow (at_pause [[''sabotage'']]) (File_json Map.empty))))) =
        [''SHP-1: Unknown choice, defaulting to standard processing'']"
  using unknown_choice_delivered
    [of "''sabotage''" "at_pause [[''sabotage'']]" example_shipment Map.empty]
  by (simp add: at_pause_def example_shipment_def example_request_def new_shipment_def)

text \<open>
  C4. The claim: after a run with the choice expedite, querying the shipment returns a
  record whose status is Delivered and whose resolutionChoice field is expedite. The
  record that the query returns has no such field: for the example shipment no key of
  the returned object is resolutionChoice or resolution, and no value of it is expedite.
\<close>

theorem query_resolution_field_counterexample:
  "map_sum id (\<lambda>entry. (map_of (json_object entry) ''resolutionChoice'',
                          map_of (json_object entry) ''resolution'',
                          JStr ''expedite'' \<in> snd ` set (json_object entry)))
     (get_shipment
        (shipments_file (final_state (run example_shipment
           (start_workflow (at_pause [[''expedite'']]) (File_json Map.empty)))))
        ''SHP-1'')
   = Inr (None, None, False)"
proof -
  have b: "resolution_branch (Some ''expedite'') =
      (Info, '': Processing express clearance (+$5000)...'', 2,
       ''Customs cleared (Express Service) - '')"
    by (simp add: resolution_branch_def)
  have c: "concat (at_pause [[''expedite'']]) = [''expedite'']"
    by (simp add: at_pause_def)
  from run_single_signal [OF c b, of example_shipment Map.empty]
  show ?thesis
    by (auto simp: final_state_def get_shipment_def load_shipments_def json_object_def
        example_shipment_def example_request_def new_shipment_def)
qed

text \<open>
  C4 as amended. For every shipment and every content of the store, after a run to which
  expedite is signalled (as the only signal), the query for the shipment returns the
  payload with status Delivered, the location \<open>Delivered to destination\<close> and the issue
  text still in place; the choice expedite is in the result that the run returns,
  under the key resolution.
\<close>

theorem query_after_expedite:
  assumes "concat signals = [''expedite'']"
  shows "get_shipment
           (shipments_file (final_state (run p (start_workflow signals (File_json shipments)))))
           (shipment_id p)
         = Inr (p\<lparr>status := ''Delivered'',
                  current_location := ''Delivered to '' @ destination p,
                  issue_details := Some ''Documentation discrepancy found - requires manual review''\<rparr>)
     \<and> returned (run p (start_workflow signals (File_json shipments))) =
           Some \<lparr>result_shipment_id = shipment_id p, result_status = ''Delivered'',
                  resolution = Some ''expedite''\<rparr>"
proof -
  have b: "resolution_branch (Some ''expedite'') =
      (Info, '': Processing express clearance (+$5000)...'', 2,
       ''Customs cleared (Express Service) - '')"
    by (simp add: resolution_branch_def)
  from run_single_signal [OF assms b, of p shipments]
  show ?thesis
    by (auto simp: returned_def final_state_def get_shipment_def load_shipments_def)
qed

theorem query_after_expedite_witness:
  "concat (at_pause [[''expedite'']]) = [''expedite'']
   \<and> map_sum id (\<lambda>entry. (status entry, current_location entry))
       (get_shipment
         (shipments_file (final_state (run example_shipment
            (start_workflow (at_pause [[''expedite'']]) (File_json Map.empty)))))
         ''SHP-1'')
       = Inr (''Delivered'', ''Delivered to Oslo'')
   \<and> returned (run example_shipment
        (start_workflow (at_pause [[''expedite'']]) (File_json Map.empty))) =
        Some \<lparr>result_shipment_id = ''SHP-1'', result_status = ''Delivered'',
               resolution = Some ''expedite''\<rparr>"
  using query_after_expedite [of "at_pause [[''expedite'']]" example_shipment Map.empty]
  by (simp add: at_pause_def example_shipment_def example_request_def new_shipment_def)

text \<open>
  C9. The run is decided by the payload and the signal. For every payload and choice,
  two runs to which that choice is signalled (as the only signal) execute the same
  activities with the same arguments in the same order and return the same result,
  whatever the store file held at the start of either and at whatever moment the
  signal arrived in either. Nothing that an activity returns reaches the run.
\<close>

theorem run_deterministic:
  assumes "concat signals = [c]" and "concat signals' = [c]"
  shows "activities (trace (final_state (run p (start_workflow signals (File_json shipments))))) =
         activities (trace (final_state (run p (start_workflow signals' (File_json shipments')))))
     \<and> returned (run p (start_workflow signals (File_json shipments))) =
         returned (run p (start_workflow signals' (File_json shipments')))
     \<and> returned (run p (start_workflow signals (File_json shipments))) \<noteq> None"
proof -
  obtain lvl msg d loc where b: "resolution_branch (Some c) = (lvl, msg, d, loc)"
    by (cases "resolution_branch (Some c)") auto
  from run_single_signal [OF assms(1) b, of p shipments]
    run_single_signal [OF assms(2) b, of p shipments']
  show ?thesis
    by (auto simp: returned_def final_state_def)
qed

theorem run_deterministic_witness:
  "concat [[''wait'']] = [''wait''] \<and> concat (at_pause [[''wait'']]) = [''wait'']
   \<and> activities (trace (final_state (run example_shipment
        (start_workflow [[''wait'']] (File_json Map.empty))))) =
     activities (trace (final_state (run example_shipment
        (start_workflow (at_pause [[''wait'']])
           (File_json [''SHP-0'' \<mapsto> new_shipment ''SHP-0'' example_request])))))
   \<and> returned (run example_shipment (start_workflow [[''wait'']] (File_json Map.empty))) =
     returned (run example_shipment
        (start_workflow (at_pause [[''wait'']])
           (File_json [''SHP-0'' \<mapsto> new_shipment ''SHP-0'' example_request])))"
  using run_deterministic [of "[[''wait'']]" "''wait''" "at_pause [[''wait'']]" example_shipment
      Map.empty "[''SHP-0'' \<mapsto> new_shipment ''SHP-0'' example_request]"]
  by (simp add: at_pause_def)

subsection \<open>The order of writes and timers, and the store along the run\<close>

lemma progress_append [simp]: "progress (xs @ ys) = progress xs @ progress ys"
  by (induction xs rule: progress.induct) simp_all

lemma progress_handle_all [simp]: "progress (trace (handle_all b s)) = progress (trace s)"
  by (induction b arbitrary: s) (simp_all add: handle_resolution_def)

lemma progress_suspend [simp]: "progress (trace (suspend s)) = progress (trace s)"
  by (simp add: suspend_def split: list.split)

lemma progress_log:
  "log lvl m s = Inr s' \<Longrightarrow> progress (trace s') = progress (trace s)"
  by (auto simp: log_def)

lemma progress_sleep:
  "sleep n s = Inr s' \<Longrightarrow> progress (trace s') = progress (trace s) @ [None]"
  by (auto simp: sleep_def)

lemma progress_execute_activity:
  "execute_activity call t s = Inr s' \<Longrightarrow>
     progress (trace s') = progress (trace s) @ [Some (written_status call)]"
  by (auto simp: execute_activity_def Let_def split: prod.splits sum.splits)

lemma progress_await_signal:
  "await_signal bs s = Inr s' \<Longrightarrow> progress (trace s') = progress (trace s)"
proof (induction bs arbitrary: s)
  case Nil
  then show ?case by simp
next
  case (Cons b bs)
  show ?case
  proof (cases "resolution_choice (handle_all b (s\<lparr>arrivals := bs\<rparr>)) = None")
    case True
    with Cons.prems have "await_signal bs (handle_all b (s\<lparr>arrivals := bs\<rparr>)) = Inr s'"
      by simp
    from Cons.IH [OF this] show ?thesis by simp
  next
    case False
    with Cons.prems show ?thesis by auto
  qed
qed

lemma progress_wait_condition:
  "wait_condition s = Inr s' \<Longrightarrow> progress (trace s') = progress (trace s)"
  using progress_await_signal [of "arrivals s" s s']
  by (auto simp: wait_condition_def split: if_splits)

lemma progress_block:
  assumes "run_steps [log lvl m, sleep d, execute_activity call t] s = Inr s'"
  shows "progress (trace s') = progress (trace s) @ [None, Some (written_status call)]"
proof -
  from assms obtain s1 s2 where "log lvl m s = Inr s1" "sleep d s1 = Inr s2"
    "execute_activity call t s2 = Inr s'"
    by (auto split: sum.splits)
  then show ?thesis
    using progress_log progress_sleep progress_execute_activity by fastforce
qed

lemma progress_process_resolution:
  assumes "process_resolution p s = Inr s'"
  shows "progress (trace s') = progress (trace s) @ [None, Some ''Cleared Customs'']"
proof -
  obtain lvl msg d loc where b: "resolution_branch (resolution_choice s) = (lvl, msg, d, loc)"
    by (cases "resolution_branch (resolution_choice s)") auto
  from assms have "run_steps [log lvl (shipment_id p @ msg), sleep d,
       execute_activity (Update_shipment_status (shipment_id p) ''Cleared Customs''
         (Some (loc @ destination p)) None) 10] s = Inr s'"
    by (simp only: process_resolution_branch b prod.case)
  from progress_block [OF this] show ?thesis by simp
qed


lemma run_steps_append_returns:
  assumes "run_steps (fs @ gs) s = Inr s'"
  obtains s1 where "run_steps fs s = Inr s1" and "run_steps gs s1 = Inr s'"
  using assms by (auto simp: run_steps_append split: sum.splits)

lemma progress_until_issue_detected:
  assumes "run_steps (until_issue_detected p) s = Inr s'"
  shows "progress (trace s') = progress (trace s) @
     [Some (status p), None, Some ''In Transit'', None, Some ''At Customs'', None,
      Some ''Issue Detected'']"
proof -
  have split: "until_issue_detected p =
     [log Info (''Starting shipment lifecycle for '' @ shipment_id p),
      execute_activity (Create_shipment_record p) 10]
     @ [log Info (shipment_id p @ '': Simulating travel time...''), sleep 3,
        execute_activity (Update_shipment_status (shipment_id p) ''In Transit''
          (Some (''En route to '' @ destination p)) None) 10]
     @ [log Info (shipment_id p @ '': Continuing journey...''), sleep 3,
        execute_activity (Update_shipment_status (shipment_id p) ''At Customs''
          (Some (''Customs checkpoint - '' @ destination p)) None) 10]
     @ [log Info (shipment_id p @ '': Issue detected at customs!''), sleep 2,
        execute_activity (Update_shipment_status (shipment_id p) ''Issue Detected''
          (Some (''Customs checkpoint - '' @ destination p))
          (Some ''Documentation discrepancy found - requires manual review'')) 10]"
    by (simp add: until_issue_detected_def Let_def)
  from assms obtain s1 where
    1: "run_steps [log Info (''Starting shipment lifecycle for '' @ shipment_id p),
          execute_activity (Create_shipment_record p) 10] s = Inr s1"
    and r1: "run_steps
      ([log Info (shipment_id p @ '': Simulating travel time...''), sleep 3,
        execute_activity (Update_shipment_status (shipment_id p) ''In Transit''
          (Some (''En route to '' @ destination p)) None) 10]
     @ [log Info (shipment_id p @ '': Continuing journey...''), sleep 3,
        execute_activity (Update_shipment_status (shipment_id p) ''At Customs''
          (Some (''Customs checkpoint - '' @ destination p)) None) 10]
     @ [log Info (shipment_id p @ '': Issue detected at customs!''), sleep 2,
        execute_activity (Update_shipment_status (shipment_id p) ''Issue Detected''
          (Some (''Customs checkpoint - '' @ destination p))
          (Some ''Documentation discrepancy found - requires manual review'')) 10]) s1 = Inr s'"
    unfolding split by (rule run_steps_append_returns)
  from r1 obtain s2 where
    2: "run_steps [log Info (shipment_id p @ '': Simulating travel time...''), sleep 3,
        execute_activity (Update_shipment_status (shipment_id p) ''In Transit''
          (Some (''En route to '' @ destination p)) None) 10] s1 = Inr s2"
    and r2: "run_steps
      ([log Info (shipment_id p @ '': Continuing journey...''), sleep 3,
        execute_activity (Update_shipment_status (shipment_id p) ''At Customs''
          (Some (''Customs checkpoint - '' @ destination p)) None) 10]
     @ [log Info (shipment_id p @ '': Issue detected at customs!''), sleep 2,
        execute_activity (Update_shipment_status (shipment_id p) ''Issue Detected''
          (Some (''Customs checkpoint - '' @ destination p))
          (Some ''Documentation discrepancy found - requires manual review'')) 10]) s2 = Inr s'"
    by (rule run_steps_append_returns)
  from r2 obtain s3 where
    3: "run_steps [log Info (shipment_id p @ '': Continuing journey...''), sleep 3,
        execute_activity (Update_shipment_status (shipment_id p) ''At Customs''
          (Some (''Customs checkpoint - '' @ destination p)) None) 10] s2 = Inr s3"
    and 4: "run_steps [log Info (shipment_id p @ '': Issue detected at customs!''), sleep 2,
        execute_activity (Update_shipment_status (shipment_id p) ''Issue Detected''
          (Some (''Customs checkpoint - '' @ destination p))
          (Some ''Documentation discrepancy found - requires manual review'')) 10] s3 = Inr s'"
    by (rule run_steps_append_returns)
  from 1 obtain s0 where "log Info (''Starting shipment lifecycle for '' @ shipment_id p) s = Inr s0"
    and "execute_activity (Create_shipment_record p) 10 s0 = Inr s1"
    by (auto split: sum.splits)
  then have "progress (trace s1) = progress (trace s) @ [Some (status p)]"
    using progress_log progress_execute_activity by fastforce
  with progress_block [OF 2] progress_block [OF 3] progress_block [OF 4]
  show ?thesis by simp
qed

lemma progress_from_pause:
  assumes "run_steps (from_pause p) s = Inr s'"
  shows "progress (trace s') = progress (trace s) @
     [None, Some ''Cleared Customs'', None, Some ''Delivered'']"
proof -
  have split: "from_pause p =
     [log Info (shipment_id p @ '': Waiting for resolution signal...''), wait_condition,
      (\<lambda>s. log Info (shipment_id p @ '': Received resolution choice: '' @ py_str (resolution_choice s)) s),
      process_resolution p]
     @ [log Info (shipment_id p @ '': Out for delivery...''), sleep 3,
        execute_activity (Update_shipment_status (shipment_id p) ''Delivered''
          (Some (''Delivered to '' @ destination p)) None) 10]
     @ [log Info (shipment_id p @ '': Shipment lifecycle complete!'')]"
    by (simp add: from_pause_def Let_def)
  from assms obtain s4 where
    1: "run_steps
      [log Info (shipment_id p @ '': Waiting for resolution signal...''), wait_condition,
       (\<lambda>s. log Info (shipment_id p @ '': Received resolution choice: '' @ py_str (resolution_choice s)) s),
       process_resolution p] s = Inr s4"
    and r1: "run_steps
      ([log Info (shipment_id p @ '': Out for delivery...''), sleep 3,
        execute_activity (Update_shipment_status (shipment_id p) ''Delivered''
          (Some (''Delivered to '' @ destination p)) None) 10]
       @ [log Info (shipment_id p @ '': Shipment lifecycle complete!'')]) s4 = Inr s'"
    unfolding split by (rule run_steps_append_returns)
  from r1 obtain s5 where
    2: "run_steps [log Info (shipment_id p @ '': Out for delivery...''), sleep 3,
        execute_activity (Update_shipment_status (shipment_id p) ''Delivered''
          (Some (''Delivered to '' @ destination p)) None) 10] s4 = Inr s5"
    and 3: "run_steps [log Info (shipment_id p @ '': Shipment lifecycle complete!'')] s5 = Inr s'"
    by (rule run_steps_append_returns)
  from 1 obtain s1 s2 s3 where
    "log Info (shipment_id p @ '': Waiting for resolution signal...'') s = Inr s1"
    "wait_condition s1 = Inr s2"
    "log Info (shipment_id p @ '': Received resolution choice: '' @ py_str (resolution_choice s2)) s2
       = Inr s3"
    "process_resolution p s3 = Inr s4"
    by (auto split: sum.splits)
  then have "progress (trace s4) = progress (trace s) @ [None, Some ''Cleared Customs'']"
    using progress_log progress_wait_condition progress_process_resolution by fastforce
  moreover from 3 have "progress (trace s') = progress (trace s5)"
    by (auto simp: log_def)
  ultimately show ?thesis using progress_block [OF 2] by simp
qed

lemma progress_run:
  assumes "returned (run p (start_workflow signals f)) \<noteq> None"
  shows "progress (trace (final_state (run p (start_workflow signals f)))) =
     [Some (status p), None, Some ''In Transit'', None, Some ''At Customs'', None,
      Some ''Issue Detected'', None, Some ''Cleared Customs'', None, Some ''Delivered'']"
proof -
  from assms obtain s' where
    r: "run_steps (until_issue_detected p @ from_pause p) (start_workflow signals f) = Inr s'"
    by (auto simp: returned_def run_def split: sum.splits)
  then have fs: "final_state (run p (start_workflow signals f)) = s'"
    by (simp add: run_def final_state_def)
  from r obtain s1 where "run_steps (until_issue_detected p) (start_workflow signals f) = Inr s1"
    and "run_steps (from_pause p) s1 = Inr s'"
    by (rule run_steps_append_returns)
  with progress_until_issue_detected progress_from_pause show ?thesis
    unfolding fs by fastforce
qed


lemma status_in_json [simp]: "status_in (File_json m) sid = map_option status (m sid)"
  by (simp add: status_in_def get_shipment_def load_shipments_def split: option.split)

lemma run_states_append:
  "run_states (fs @ gs) s =
     (case run_steps fs s of Inl h \<Rightarrow> run_states fs s
      | Inr s' \<Rightarrow> run_states fs s @ run_states gs s')"
  by (induction fs arbitrary: s) (simp_all split: sum.split)

lemma store_until_issue_detected:
  assumes "shipments_file s = File_json shipments" and "timers (trace s) = []"
  shows "map (\<lambda>x. (status_in (shipments_file x) (shipment_id p), length (timers (trace x))))
           (run_states (until_issue_detected p) s) =
         [(map_option status (shipments (shipment_id p)), 0),
          (Some (status p), 0), (Some (status p), 0), (Some (status p), 1),
          (Some ''In Transit'', 1), (Some ''In Transit'', 1), (Some ''In Transit'', 2),
          (Some ''At Customs'', 2), (Some ''At Customs'', 2), (Some ''At Customs'', 3),
          (Some ''Issue Detected'', 3)]"
  using assms
  by (simp add: until_issue_detected_def step_defs update_shipment_status_present truthy_def)

lemma store_from_pause:
  assumes f: "shipments_file s = File_json shipments"
    and e: "shipments (shipment_id p) = Some entry"
    and t: "length (timers (trace s)) = 3"
    and w: "wait_condition
      (s\<lparr>trace := trace s @ [Log Info (shipment_id p @ '': Waiting for resolution signal...'')]\<rparr>)
      = Inr s'"
  shows "map (\<lambda>x. (status_in (shipments_file x) (shipment_id p), length (timers (trace x))))
           (run_states (from_pause p) s) =
         [(Some (status entry), 3), (Some (status entry), 3), (Some (status entry), 3),
          (Some ''Cleared Customs'', 4), (Some ''Cleared Customs'', 4),
          (Some ''Cleared Customs'', 5), (Some ''Delivered'', 5), (Some ''Delivered'', 5)]"
proof -
  let ?s1 = "s'\<lparr>trace := trace s' @
     [Log Info (shipment_id p @ '': Received resolution choice: '' @ py_str (resolution_choice s'))]\<rparr>"
  from wait_condition_returns [OF w] f t
  have f': "shipments_file s' = File_json shipments" and t': "length (timers (trace s')) = 3"
    by simp_all
  then have f1: "shipments_file ?s1 = File_json shipments" by simp
  obtain lvl msg d loc where
    b: "resolution_branch (resolution_choice ?s1) = (lvl, msg, d, loc)"
    by (cases "resolution_branch (resolution_choice ?s1)") auto
  from process_resolution_runs [OF f1 e b] obtain s2 where
    pr: "process_resolution p ?s1 = Inr s2"
    and f2: "shipments_file s2 = File_json (shipments(shipment_id p \<mapsto>
          entry\<lparr>status := ''Cleared Customs'', current_location := loc @ destination p\<rparr>))"
    and t2: "timers (trace s2) = timers (trace ?s1) @ [d]"
    by blast
  from t2 t' have t2': "length (timers (trace s2)) = 4" by simp
  show ?thesis
    using w pr f f' f2 e t t' t2'
    by (simp add: from_pause_def step_defs update_shipment_status_present truthy_def)
qed


lemma last_run_states:
  "run_steps fs s = Inr s' \<Longrightarrow> fs \<noteq> [] \<Longrightarrow> last (run_states fs s) = s'"
proof (induction fs arbitrary: s)
  case Nil
  then show ?case by simp
next
  case (Cons g gs)
  from Cons.prems obtain x where gx: "g s = Inr x" and rest: "run_steps gs x = Inr s'"
    by (auto split: sum.splits)
  show ?case
  proof (cases "gs = []")
    case True
    with gx rest show ?thesis by simp
  next
    case False
    with rest have "run_states gs x \<noteq> []"
      by (cases gs) (auto split: sum.splits)
    with Cons.IH [OF rest False] gx show ?thesis by simp
  qed
qed

text \<open>
  C5. For every run that returns, of a shipment as \<^verbatim>\<open>create_shipment\<close> builds it,
  on every content of the store and with any signals. In the trace, the statuses
  written and the timers alternate: Pending, timer, In Transit, timer, At Customs,
  timer, Issue Detected, timer, Cleared Customs, timer, Delivered; no status is
  missing, repeated or out of place. In the store that the run itself writes, looked
  at after each statement of \<^verbatim>\<open>run\<close>, the shipment has the status of its stage
  before the timer of the next stage starts: each pair below is the status that the
  query finds and the number of timers slept on so far. The run ends on the last of
  these states.
\<close>

theorem statuses_persisted_in_order:
  assumes "returned (run (new_shipment sid request)
             (start_workflow signals (File_json shipments))) \<noteq> None"
  shows "progress (trace (final_state
           (run (new_shipment sid request) (start_workflow signals (File_json shipments))))) =
         [Some ''Pending'', None, Some ''In Transit'', None, Some ''At Customs'', None,
          Some ''Issue Detected'', None, Some ''Cleared Customs'', None, Some ''Delivered'']
     \<and> map (\<lambda>s. (status_in (shipments_file s) sid, length (timers (trace s))))
           (run_states
             (until_issue_detected (new_shipment sid request) @ from_pause (new_shipment sid request))
             (start_workflow signals (File_json shipments))) =
         [(status_in (File_json shipments) sid, 0),
          (Some ''Pending'', 0), (Some ''Pending'', 0), (Some ''Pending'', 1),
          (Some ''In Transit'', 1), (Some ''In Transit'', 1), (Some ''In Transit'', 2),
          (Some ''At Customs'', 2), (Some ''At Customs'', 2), (Some ''At Customs'', 3),
          (Some ''Issue Detected'', 3), (Some ''Issue Detected'', 3),
          (Some ''Issue Detected'', 3), (Some ''Issue Detected'', 3),
          (Some ''Cleared Customs'', 4), (Some ''Cleared Customs'', 4),
          (Some ''Cleared Customs'', 5), (Some ''Delivered'', 5), (Some ''Delivered'', 5)]
     \<and> final_state (run (new_shipment sid request) (start_workflow signals (File_json shipments))) =
         last (run_states
             (until_issue_detected (new_shipment sid request) @ from_pause (new_shipment sid request))
             (start_workflow signals (File_json shipments)))"
proof -
  let ?p = "new_shipment sid request"
  let ?s0 = "start_workflow signals (File_json shipments)"
  let ?entry = "?p\<lparr>status := ''Issue Detected'',
          current_location := ''Customs checkpoint - '' @ destination ?p,
          issue_details := Some ''Documentation discrepancy found - requires manual review''\<rparr>"
  have sid: "shipment_id ?p = sid" and st: "status ?p = ''Pending''"
    by (simp_all add: new_shipment_def)
  from assms obtain s' where
    r: "run_steps (until_issue_detected ?p @ from_pause ?p) ?s0 = Inr s'"
    by (auto simp: returned_def run_def split: sum.splits)
  then have fs: "final_state (run ?p ?s0) = s'"
    by (simp add: run_def final_state_def)
  from r obtain s1 where u: "run_steps (until_issue_detected ?p) ?s0 = Inr s1"
    and fp: "run_steps (from_pause ?p) s1 = Inr s'"
    by (rule run_steps_append_returns)
  have f0: "shipments_file ?s0 = File_json shipments" and t0: "timers (trace ?s0) = []"
    by simp_all
  from until_issue_detected_runs [OF f0, of ?p] u
  have f1: "shipments_file s1 = File_json (shipments(shipment_id ?p \<mapsto> ?entry))"
    and t1: "length (timers (trace s1)) = 3"
    by auto
  have e1: "(shipments(shipment_id ?p \<mapsto> ?entry)) (shipment_id ?p) = Some ?entry" by simp
  let ?s1 = "s1\<lparr>trace := trace s1 @
     [Log Info (shipment_id ?p @ '': Waiting for resolution signal...'')]\<rparr>"
  obtain s2 where w: "wait_condition ?s1 = Inr s2"
  proof (cases "wait_condition ?s1")
    case (Inl h)
    from from_pause_halts [OF Inl] fp show ?thesis by simp
  next
    case (Inr s2)
    with that show ?thesis .
  qed
  have "run_states (until_issue_detected ?p @ from_pause ?p) ?s0 =
      run_states (until_issue_detected ?p) ?s0 @ run_states (from_pause ?p) s1"
    by (simp add: run_states_append u)
  with store_until_issue_detected [OF f0 t0, of ?p] store_from_pause [OF f1 e1 t1 w]
  have states: "map (\<lambda>s. (status_in (shipments_file s) sid, length (timers (trace s))))
           (run_states (until_issue_detected ?p @ from_pause ?p) ?s0) =
         [(status_in (File_json shipments) sid, 0),
          (Some ''Pending'', 0), (Some ''Pending'', 0), (Some ''Pending'', 1),
          (Some ''In Transit'', 1), (Some ''In Transit'', 1), (Some ''In Transit'', 2),
          (Some ''At Customs'', 2), (Some ''At Customs'', 2), (Some ''At Customs'', 3),
          (Some ''Issue Detected'', 3), (Some ''Issue Detected'', 3),
          (Some ''Issue Detected'', 3), (Some ''Issue Detected'', 3),
          (Some ''Cleared Customs'', 4), (Some ''Cleared Customs'', 4),
          (Some ''Cleared Customs'', 5), (Some ''Delivered'', 5), (Some ''Delivered'', 5)]"
    by (simp add: sid st)
  have ne: "until_issue_detected ?p @ from_pause ?p \<noteq> []"
    by (simp add: from_pause_def Let_def)
  from last_run_states [OF r ne] fs
  have "final_state (run ?p ?s0) = last (run_states (until_issue_detected ?p @ from_pause ?p) ?s0)"
    by simp
  with progress_run [OF assms] states st show ?thesis by simp
qed

theorem statuses_persisted_in_order_witness:
  "returned (run (new_shipment ''SHP-1'' example_request)
      (start_workflow (at_pause [[''bribe_official'']]) (File_json Map.empty))) \<noteq> None
   \<and> progress (trace (final_state (run (new_shipment ''SHP-1'' example_request)
        (start_workflow (at_pause [[''bribe_official'']]) (File_json Map.empty))))) =
      [Some ''Pending'', None, Some ''In Transit'', None, Some ''At Customs'', None,
       Some ''Issue Detected'', None, Some ''Cleared Customs'', None, Some ''Delivered'']
   \<and> map (\<lambda>s. (status_in (shipments_file s) ''SHP-1'', length (timers (trace s))))
        (run_states
          (until_issue_detected (new_shipment ''SHP-1'' example_request)
            @ from_pause (new_shipment ''SHP-1'' example_request))
          (start_workflow (at_pause [[''bribe_official'']]) (File_json Map.empty))) =
      [(None, 0),
       (Some ''Pending'', 0), (Some ''Pending'', 0), (Some ''Pending'', 1),
       (Some ''In Transit'', 1), (Some ''In Transit'', 1), (Some ''In Transit'', 2),
       (Some ''At Customs'', 2), (Some ''At Customs'', 2), (Some ''At Customs'', 3),
       (Some ''Issue Detected'', 3), (Some ''Issue Detected'', 3),
       (Some ''Issue Detected'', 3), (Some ''Issue Detected'', 3),
       (Some ''Cleared Customs'', 4), (Some ''Cleared Customs'', 4),
       (Some ''Cleared Customs'', 5), (Some ''Delivered'', 5), (Some ''Delivered'', 5)]"
proof -
  have b: "resolution_branch (Some ''bribe_official'') =
      (Info, '': Processing facilitation payment (+$2500)...'', 3,
       ''Customs cleared (Expedited Processing) - '')"
    by (simp add: resolution_branch_def)
  have c: "concat (at_pause [[''bribe_official'']]) = [''bribe_official'']"
    by (simp add: at_pause_def)
  from run_single_signal [OF c b, of "new_shipment ''SHP-1'' example_request" Map.empty]
  have r: "returned (run (new_shipment ''SHP-1'' example_request)
      (start_workflow (at_pause [[''bribe_official'']]) (File_json Map.empty))) \<noteq> None"
    by (auto simp: returned_def)
  note t = statuses_persisted_in_order [OF r]
  from r t [THEN conjunct1] t [THEN conjunct2, THEN conjunct1] show ?thesis by simp
qed

text \<open>
  A run in which \<open>c1\<close> is signalled while the run is paused and \<open>later\<close> lists the
  signals of the suspensions that follow. Four suspensions follow the pause; the result
  reports the last choice signalled up to the fourth.
\<close>

lemma run_signalled_at_pause:
  assumes b: "resolution_branch (Some c1) = (lvl, msg, d, loc)"
  shows "\<exists>s3. run p (start_workflow (at_pause ([c1] # later)) (File_json shipments)) =
           Inr (\<lparr>result_shipment_id = shipment_id p, result_status = ''Delivered'',
                 resolution = latest (Some c1) (take 4 later)\<rparr>, s3)
     \<and> activities (trace s3) =
         [Create_shipment_record p,
          Update_shipment_status (shipment_id p) ''In Transit''
            (Some (''En route to '' @ destination p)) None,
          Update_shipment_status (shipment_id p) ''At Customs''
            (Some (''Customs checkpoint - '' @ destination p)) None,
          Update_shipment_status (shipment_id p) ''Issue Detected''
            (Some (''Customs checkpoint - '' @ destination p))
            (Some ''Documentation discrepancy found - requires manual review''),
          Update_shipment_status (shipment_id p) ''Cleared Customs''
            (Some (loc @ destination p)) None,
          Update_shipment_status (shipment_id p) ''Delivered''
            (Some (''Delivered to '' @ destination p)) None]"
proof -
  let ?s0 = "start_workflow (at_pause ([c1] # later)) (File_json shipments)"
  let ?entry = "p\<lparr>status := ''Issue Detected'',
          current_location := ''Customs checkpoint - '' @ destination p,
          issue_details := Some ''Documentation discrepancy found - requires manual review''\<rparr>"
  have "shipments_file ?s0 = File_json shipments" by simp
  from until_issue_detected_runs [OF this, of p] obtain s1 where
    u: "run_steps (until_issue_detected p) ?s0 = Inr s1"
    and f: "shipments_file s1 = File_json (shipments(shipment_id p \<mapsto> ?entry))"
    and a: "activities (trace s1) = activities (trace ?s0) @
         [Create_shipment_record p,
          Update_shipment_status (shipment_id p) ''In Transit'' (Some (''En route to '' @ destination p)) None,
          Update_shipment_status (shipment_id p) ''At Customs'' (Some (''Customs checkpoint - '' @ destination p)) None,
          Update_shipment_status (shipment_id p) ''Issue Detected'' (Some (''Customs checkpoint - '' @ destination p))
            (Some ''Documentation discrepancy found - requires manual review'')]"
    and ab: "absorbed (Suc (Suc (Suc (Suc (Suc (Suc (Suc 0))))))) ?s0 s1"
    by blast
  from ab have ar: "arrivals s1 = [c1] # later" and rc: "resolution_choice s1 = None"
    by (simp_all add: absorbed_def at_pause_def latest_def)
  let ?s1 = "s1\<lparr>trace := trace s1 @ [Log Info (shipment_id p @ '': Waiting for resolution signal...'')]\<rparr>"
  let ?s' = "handle_resolution c1 (?s1\<lparr>arrivals := later\<rparr>)"
  have w: "wait_condition ?s1 = Inr ?s'"
    using ar rc by (simp add: wait_condition_def handle_resolution_def)
  have b': "resolution_branch (resolution_choice ?s') = (lvl, msg, d, loc)"
    using b by (simp add: handle_resolution_def)
  have e: "(shipments(shipment_id p \<mapsto> ?entry)) (shipment_id p) = Some ?entry" by simp
  from run_returns [OF u f e w b'] obtain s3 where
    r: "run p ?s0 = Inr (\<lparr>result_shipment_id = shipment_id p, result_status = ''Delivered'',
                               resolution = resolution_choice s3\<rparr>, s3)"
    and a3: "activities (trace s3) = activities (trace s1) @
         [Update_shipment_status (shipment_id p) ''Cleared Customs''
            (Some (loc @ destination p)) None,
          Update_shipment_status (shipment_id p) ''Delivered''
            (Some (''Delivered to '' @ destination p)) None]"
    and ab3: "absorbed (Suc (Suc (Suc (Suc 0)))) ?s' s3"
    by blast
  from ab3 have "resolution_choice s3 = latest (Some c1) (take 4 later)"
    by (simp add: absorbed_def handle_resolution_def eval_nat_numeral)
  with r a3 a show ?thesis by simp
qed

text \<open>
  C6. The claim: a choice once received is recorded on the instance and never
  overwritten, so that a second signal with a different choice leaves it unchanged for
  the rest of the run. The handler assigns without looking at the field. With expedite
  signalled at the pause and wait signalled afterwards, during the next suspension or
  as late as the last one, the field holds wait; the run has cleared customs by Express
  Service, as expedite asks, and returns wait as the resolution, a choice that it
  never processed.
\<close>

theorem second_signal_overwrites_choice:
  "resolution_choice
     (handle_resolution ''wait''
        (handle_resolution ''expedite'' (start_workflow [] (File_json Map.empty))))
   = Some ''wait''
   \<and> returned (run example_shipment
        (start_workflow (at_pause [[''expedite''], [''wait'']]) (File_json Map.empty)))
   = Some \<lparr>result_shipment_id = ''SHP-1'', result_status = ''Delivered'',
            resolution = Some ''wait''\<rparr>
   \<and> returned (run example_shipment
        (start_workflow (at_pause [[''expedite''], [], [], [], [''wait'']]) (File_json Map.empty)))
   = Some \<lparr>result_shipment_id = ''SHP-1'', result_status = ''Delivered'',
            resolution = Some ''wait''\<rparr>
   \<and> activities (trace (final_state (run example_shipment
          (start_workflow (at_pause [[''expedite''], [''wait'']]) (File_json Map.empty))))) =
       [Create_shipment_record example_shipment,
        Update_shipment_status ''SHP-1'' ''In Transit'' (Some ''En route to Oslo'') None,
        Update_shipment_status ''SHP-1'' ''At Customs'' (Some ''Customs checkpoint - Oslo'') None,
        Update_shipment_status ''SHP-1'' ''Issue Detected'' (Some ''Customs checkpoint - Oslo'')
          (Some ''Documentation discrepancy found - requires manual review''),
        Update_shipment_status ''SHP-1'' ''Cleared Customs''
          (Some ''Customs cleared (Express Service) - Oslo'') None,
        Update_shipment_status ''SHP-1'' ''Delivered'' (Some ''Delivered to Oslo'') None]"
proof -
  have b: "resolution_branch (Some ''expedite'') =
      (Info, '': Processing express clearance (+$5000)...'', 2,
       ''Customs cleared (Express Service) - '')"
    by (simp add: resolution_branch_def)
  from run_signalled_at_pause [OF b, of example_shipment "[[''wait'']]" Map.empty]
    run_signalled_at_pause [OF b, of example_shipment "[[], [], [], [''wait'']]" Map.empty]
  show ?thesis
    by (auto simp: returned_def final_state_def handle_resolution_def latest_def
        example_shipment_def example_request_def new_shipment_def)
qed

section \<open>The claims about the endpoints and the store\<close>

text \<open>
  C3. The claim: the signal-forwarding endpoint accepts every choice string and never
  rejects an unrecognized one. The endpoint validates the choice first: for sabotage
  it raises HTTP 400 and sends no signal, although the client would have let it through.
\<close>

theorem unrecognized_choice_rejected_counterexample:
  "resolve_shipment_issue (\<lambda>wid choice. None) ''SHP-1'' ''sabotage'' =
     (Inl (HTTPException 400
        ''Invalid choice. Must be one of: expedite, wait, bribe_official, reroute''), [])"
  by (simp add: resolve_shipment_issue_def valid_choices_def)

text \<open>
  C3 as amended. The endpoint forwards a choice when and only when it is one of the four:
  for any other choice it raises HTTP 400 with the list of valid choices and sends no
  signal, whatever the client would do; for one of the four it sends the signal, once,
  to the workflow of that shipment.
\<close>

theorem resolve_forwards_valid_choices_only:
  "(choice \<notin> {''expedite'', ''bribe_official'', ''reroute'', ''wait''} \<longrightarrow>
      resolve_shipment_issue signal sid choice =
        (Inl (HTTPException 400
           ''Invalid choice. Must be one of: expedite, wait, bribe_official, reroute''), []))
   \<and> (choice \<in> {''expedite'', ''bribe_official'', ''reroute'', ''wait''} \<longrightarrow>
      snd (resolve_shipment_issue signal sid choice) = [(sid, choice)]
      \<and> (signal sid choice = None \<longrightarrow>
           fst (resolve_shipment_issue signal sid choice) =
             Inr (''Resolution signal sent to workflow'', sid, choice)))"
  by (auto simp: resolve_shipment_issue_def valid_choices_def split: option.split)

theorem resolve_forwards_valid_choices_only_witness:
  "''bribe'' \<notin> {''expedite'', ''bribe_official'', ''reroute'', ''wait''}
   \<and> resolve_shipment_issue (\<lambda>wid choice. None) ''SHP-1'' ''bribe'' =
        (Inl (HTTPException 400
           ''Invalid choice. Must be one of: expedite, wait, bribe_official, reroute''), [])
   \<and> ''bribe_official'' \<in> {''expedite'', ''bribe_official'', ''reroute'', ''wait''}
   \<and> resolve_shipment_issue (\<lambda>wid choice. None) ''SHP-1'' ''bribe_official'' =
        (Inr (''Resolution signal sent to workflow'', ''SHP-1'', ''bribe_official''),
         [(''SHP-1'', ''bribe_official'')])"
  using resolve_forwards_valid_choices_only [of "''bribe''" "\<lambda>wid choice. None" "''SHP-1''"]
    resolve_forwards_valid_choices_only [of "''bribe_official''" "\<lambda>wid choice. None" "''SHP-1''"]
  by (simp add: prod_eq_iff)

text \<open>
  C8. The claim: an operation on an unknown shipment id reports the unknown id to the
  caller, the status update as well as the query. The status update does not: on a store
  without the id it returns its usual result and leaves the store as it was.
\<close>

theorem update_unknown_id_counterexample:
  "update_shipment_status ''SHP-404'' ''Delivered'' (Some ''Delivered to Oslo'') None
     (File_json Map.empty) = (Inr (''SHP-404'', ''Delivered''), File_json Map.empty)"
  by (simp add: update_shipment_status_absent)

text \<open>
  C8 as amended. On a store that does not hold the id, the query raises HTTP 404 naming
  the id, and the status update returns its usual result, the id and the status, and
  leaves the store unchanged: it creates no record and reports nothing.
\<close>

theorem unknown_shipment_id:
  assumes "shipments sid = None"
  shows "get_shipment (File_json shipments) sid =
           Inl (HTTPException 404 (''Shipment '' @ sid @ '' not found''))
     \<and> update_shipment_status sid st loc det (File_json shipments) =
           (Inr (sid, st), File_json shipments)"
  using assms
  by (simp add: get_shipment_def load_shipments_def update_shipment_status_absent)

theorem unknown_shipment_id_witness:
  "[''SHP-1'' \<mapsto> example_shipment] ''SHP-404'' = None
   \<and> get_shipment (File_json [''SHP-1'' \<mapsto> example_shipment]) ''SHP-404'' =
        Inl (HTTPException 404 ''Shipment SHP-404 not found'')
   \<and> update_shipment_status ''SHP-404'' ''In Transit'' (Some ''En route to Oslo'') None
        (File_json [''SHP-1'' \<mapsto> example_shipment]) =
        (Inr (''SHP-404'', ''In Transit''), File_json [''SHP-1'' \<mapsto> example_shipment])"
  using unknown_shipment_id [of "[''SHP-1'' \<mapsto> example_shipment]" "''SHP-404''"
      "''In Transit''" "Some ''En route to Oslo''" None]
  by simp

text \<open>
  C10. On a store that holds the id, the status update with a falsy location
  (\<^verbatim>\<open>None\<close> or the empty string) leaves the location of the record as it was, and with
  no issue details it leaves the issue details as they were; in every case the other
  eight fields of the record keep their values and every other record of the store is
  the same.
\<close>

theorem update_shipment_status_frame:
  assumes "shipments sid = Some entry"
  shows "\<exists>shipments' entry'.
       snd (update_shipment_status sid st loc det (File_json shipments)) = File_json shipments'
     \<and> shipments' sid = Some entry'
     \<and> (\<forall>other. other \<noteq> sid \<longrightarrow> shipments' other = shipments other)
     \<and> (loc = None \<or> loc = Some '''' \<longrightarrow> current_location entry' = current_location entry)
     \<and> (det = None \<longrightarrow> issue_details entry' = issue_details entry)
     \<and> shipment_id entry' = shipment_id entry
     \<and> project_name entry' = project_name entry
     \<and> supplier_name entry' = supplier_name entry
     \<and> origin entry' = origin entry
     \<and> destination entry' = destination entry
     \<and> cargo_value entry' = cargo_value entry
     \<and> priority entry' = priority entry
     \<and> container_type entry' = container_type entry"
  using assms
  by (auto simp: update_shipment_status_present truthy_def)

theorem update_shipment_status_frame_witness:
  "[''SHP-1'' \<mapsto> example_shipment, ''SHP-2'' \<mapsto> new_shipment ''SHP-2'' example_request] ''SHP-1''
     = Some example_shipment
   \<and> (\<exists>shipments' entry'.
       snd (update_shipment_status ''SHP-1'' ''At Customs'' (Some []) None
         (File_json [''SHP-1'' \<mapsto> example_shipment,
                     ''SHP-2'' \<mapsto> new_shipment ''SHP-2'' example_request])) = File_json shipments'
     \<and> shipments' ''SHP-1'' = Some entry'
     \<and> shipments' ''SHP-2'' = Some (new_shipment ''SHP-2'' example_request)
     \<and> current_location entry' = ''Warehouse Alpha''
     \<and> issue_details entry' = None
     \<and> destination entry' = ''Oslo''
     \<and> cargo_value entry' = Some 125000)"
  using update_shipment_status_frame
    [where shipments = "[''SHP-1'' \<mapsto> example_shipment,
                         ''SHP-2'' \<mapsto> new_shipment ''SHP-2'' example_request]"
       and sid = "''SHP-1''" and entry = example_shipment and st = "''At Customs''"
       and loc = "Some []" and det = None]
  by (auto simp: example_shipment_def example_request_def new_shipment_def)

end
